theory Spec2Isabelle
  imports Complex_Main
begin

section \<open>otelkit: a shallow embedding of the instrumentation facade\<close>

text \<open>
  The definitions below follow \<^verbatim>\<open>otelkit.go\<close> (the current, three-signal version) and
  \<^verbatim>\<open>middleware.go\<close>. The tracing, metrics and logging SDK, \<^verbatim>\<open>net/http\<close> and
  \<^verbatim>\<open>log/slog\<close> are libraries outside the repository: a span, an instrument and a log sink
  are modelled as recorders of the calls the facade makes on them, and whatever an SDK
  constructor may return is a parameter (the record \<open>sdk\<close>).
\<close>

subsection \<open>Errors and panics\<close>

text \<open>
  A Go \<^verbatim>\<open>error\<close> value. \<open>Err\<close> is an error with a message (\<^verbatim>\<open>errors.New\<close>, or
  \<^verbatim>\<open>fmt.Errorf\<close> without a wrapped error), \<open>Wrapf p e\<close> is \<^verbatim>\<open>fmt.Errorf("p: %w", e)\<close> and
  \<open>Errorfv p es\<close> is \<^verbatim>\<open>fmt.Errorf("p: %v", es)\<close> for a slice of errors. A nil error is
  \<open>None\<close> of \<open>error option\<close>.
\<close>

datatype error = Err string | Wrapf string error | Errorfv string "error list"

fun join_space :: "string list \<Rightarrow> string" where
  "join_space [] = []"
| "join_space [s] = s"
| "join_space (s # t # ss) = s @ '' '' @ join_space (t # ss)"

fun error_Error :: "error \<Rightarrow> string" where
  "error_Error (Err s) = s"
| "error_Error (Wrapf p e) = p @ '': '' @ error_Error e"
| "error_Error (Errorfv p es) = p @ '': ['' @ join_space (map error_Error es) @ '']''"

text \<open>What a call does: it returns a value, or it panics (the runtime error as text).\<close>

datatype 'a outcome = Return 'a | Panic string

definition nil_deref :: string where
  "nil_deref = ''runtime error: invalid memory address or nil pointer dereference''"

subsection \<open>Configuration\<close>

type_synonym ExporterType = string

definition ExporterJaeger :: ExporterType where "ExporterJaeger = ''jaeger''"
definition ExporterOTLP :: ExporterType where "ExporterOTLP = ''otlp''"
definition ExporterStdout :: ExporterType where "ExporterStdout = ''stdout''"
definition ExporterPrometheus :: ExporterType where "ExporterPrometheus = ''prometheus''"
definition ExporterNone :: ExporterType where "ExporterNone = ''none''"

text \<open>\<^verbatim>\<open>slog.Level\<close> is an integer: Debug is -4, Info 0, Warn 4, Error 8.\<close>

type_synonym slog_Level = int

definition LevelDebug :: slog_Level where "LevelDebug = -4"
definition LevelInfo :: slog_Level where "LevelInfo = 0"
definition LevelWarn :: slog_Level where "LevelWarn = 4"
definition LevelError :: slog_Level where "LevelError = 8"

text \<open>The struct \<^verbatim>\<open>Config\<close>. A \<^verbatim>\<open>float64\<close> is a real number here.\<close>

record Config =
  ServiceName :: string
  ServiceVersion :: string
  Environment :: string
  ExporterType :: ExporterType
  JaegerURL :: string
  OTLPEndpoint :: string
  SampleRate :: real
  Debug :: bool
  EnableMetrics :: bool
  EnableLogs :: bool
  MetricsExporterType :: ExporterType
  LogsExporterType :: ExporterType
  PrometheusPort :: int
  LogLevel :: slog_Level
  LogFilePath :: string

text \<open>The zero value \<^verbatim>\<open>Config{}\<close>: no field set.\<close>

definition Config_zero :: Config where
  "Config_zero = \<lparr> ServiceName = [], ServiceVersion = [], Environment = [],
     ExporterType = [], JaegerURL = [], OTLPEndpoint = [], SampleRate = 0, Debug = False,
     EnableMetrics = False, EnableLogs = False, MetricsExporterType = [],
     LogsExporterType = [], PrometheusPort = 0, LogLevel = 0, LogFilePath = [] \<rparr>"

text \<open>
  The process environment is a function from names to values; \<^verbatim>\<open>os.Getenv\<close> gives the
  empty string for a variable that is not set.
\<close>

type_synonym environ = "string \<Rightarrow> string"

definition getEnvOrDefault :: "environ \<Rightarrow> string \<Rightarrow> string \<Rightarrow> string" where
  "getEnvOrDefault env key defaultValue =
     (let v = env key in if v \<noteq> [] then v else defaultValue)"

definition DefaultConfig :: "environ \<Rightarrow> Config" where
  "DefaultConfig env =
     (let lv = getEnvOrDefault env ''OTEL_LOG_LEVEL'' ''info'';
          logLevel = (if lv = ''debug'' then LevelDebug
                      else if lv = ''warn'' then LevelWarn
                      else if lv = ''error'' then LevelError
                      else LevelInfo)
      in \<lparr> ServiceName = getEnvOrDefault env ''OTEL_SERVICE_NAME'' ''unknown-service'',
           ServiceVersion = getEnvOrDefault env ''OTEL_SERVICE_VERSION'' ''1.0.0'',
           Environment = getEnvOrDefault env ''OTEL_ENVIRONMENT'' ''development'',
           ExporterType = getEnvOrDefault env ''OTEL_EXPORTER_TYPE'' ExporterStdout,
           JaegerURL = getEnvOrDefault env ''JAEGER_URL'' ''http://localhost:14268/api/traces'',
           OTLPEndpoint = getEnvOrDefault env ''OTEL_EXPORTER_OTLP_ENDPOINT'' ''http://localhost:4318'',
           SampleRate = 1 / 10,
           Debug = (getEnvOrDefault env ''OTEL_DEBUG'' ''false'' = ''true''),
           EnableMetrics = (getEnvOrDefault env ''OTEL_ENABLE_METRICS'' ''true'' = ''true''),
           EnableLogs = (getEnvOrDefault env ''OTEL_ENABLE_LOGS'' ''true'' = ''true''),
           MetricsExporterType = getEnvOrDefault env ''OTEL_METRICS_EXPORTER'' ExporterPrometheus,
           LogsExporterType = getEnvOrDefault env ''OTEL_LOGS_EXPORTER'' ExporterStdout,
           PrometheusPort = 9090,
           LogLevel = logLevel,
           LogFilePath = getEnvOrDefault env ''OTEL_LOG_FILE_PATH'' [] \<rparr>)"

subsection \<open>Exporters and providers\<close>

text \<open>
  The constructors of the exporters belong to the SDK. Each may fail (an unreachable
  collector, a bad URL); the record \<open>sdk\<close> says which ones do, and the repository's code
  is a function of it.
\<close>

datatype exporter =
    JaegerExporter string
  | OTLPTraceExporter string
  | StdoutTraceExporter
  | OTLPMetricExporter string
  | PrometheusExporter
  | StdoutMetricExporter
  | OTLPLogExporter string
  | StdoutLogExporter

text \<open>A metrics reader: a periodic reader around a push exporter (interval in seconds),
  or the Prometheus exporter, which is a reader itself.\<close>

datatype reader = PeriodicReader exporter nat | ExporterReader exporter

datatype sampler = TraceIDRatioBased real | NeverSample

datatype provider =
    TracerProvider "exporter option" sampler
  | MeterProvider "reader option"
  | LoggerProvider "exporter option"

record sdk =
  resource_Merge :: "error option"
  jaeger_New :: "string \<Rightarrow> error option"
  otlptracehttp_New :: "string \<Rightarrow> error option"
  stdouttrace_New :: "error option"
  otlpmetrichttp_New :: "string \<Rightarrow> error option"
  prometheus_New :: "error option"
  stdoutmetric_New :: "error option"
  otlploghttp_New :: "string \<Rightarrow> error option"
  stdoutlog_New :: "error option"
  meter_instrument :: "string \<Rightarrow> error option"
  os_OpenFile :: "string \<Rightarrow> error option"

text \<open>An SDK in which every constructor succeeds.\<close>

definition sdk_ok :: sdk where
  "sdk_ok = \<lparr> resource_Merge = None, jaeger_New = (\<lambda>_. None),
     otlptracehttp_New = (\<lambda>_. None), stdouttrace_New = None,
     otlpmetrichttp_New = (\<lambda>_. None), prometheus_New = None, stdoutmetric_New = None,
     otlploghttp_New = (\<lambda>_. None), stdoutlog_New = None, meter_instrument = (\<lambda>_. None),
     os_OpenFile = (\<lambda>_. None) \<rparr>"

text \<open>\<open>made r x\<close>: the pair (value, error) of a Go constructor as a sum.\<close>

definition made :: "error option \<Rightarrow> 'a \<Rightarrow> error + 'a" where
  "made r x = (case r of Some e \<Rightarrow> Inl e | None \<Rightarrow> Inr x)"

definition createTraceExporter :: "sdk \<Rightarrow> Config \<Rightarrow> error + exporter option" where
  "createTraceExporter k config =
     (if ExporterType config = ExporterJaeger then
        made (jaeger_New k (JaegerURL config)) (Some (JaegerExporter (JaegerURL config)))
      else if ExporterType config = ExporterOTLP then
        (let endpoint = (if OTLPEndpoint config = [] then ''localhost:4318''
                         else OTLPEndpoint config)
         in made (otlptracehttp_New k endpoint) (Some (OTLPTraceExporter endpoint)))
      else if ExporterType config = ExporterStdout then
        made (stdouttrace_New k) (Some StdoutTraceExporter)
      else if ExporterType config = ExporterNone then Inr None
      else Inl (Err (''unsupported trace exporter type: '' @ ExporterType config)))"

definition createMetricsExporter :: "sdk \<Rightarrow> Config \<Rightarrow> error + reader option" where
  "createMetricsExporter k config =
     (if MetricsExporterType config = ExporterOTLP then
        (let endpoint = (if OTLPEndpoint config = [] then ''localhost:4318''
                         else OTLPEndpoint config)
         in made (otlpmetrichttp_New k endpoint)
              (Some (PeriodicReader (OTLPMetricExporter endpoint) 15)))
      else if MetricsExporterType config = ExporterPrometheus then
        made (prometheus_New k) (Some (ExporterReader PrometheusExporter))
      else if MetricsExporterType config = ExporterStdout then
        made (stdoutmetric_New k) (Some (PeriodicReader StdoutMetricExporter 15))
      else if MetricsExporterType config = ExporterNone then Inr None
      else Inl (Err (''unsupported metrics exporter type: '' @ MetricsExporterType config)))"

definition createLogsExporter :: "sdk \<Rightarrow> Config \<Rightarrow> error + exporter option" where
  "createLogsExporter k config =
     (if LogsExporterType config = ExporterOTLP then
        (let endpoint = (if OTLPEndpoint config = [] then ''localhost:4318''
                         else OTLPEndpoint config)
         in made (otlploghttp_New k endpoint) (Some (OTLPLogExporter endpoint)))
      else if LogsExporterType config = ExporterStdout then
        made (stdoutlog_New k) (Some StdoutLogExporter)
      else if LogsExporterType config = ExporterNone then Inr None
      else Inl (Err (''unsupported logs exporter type: '' @ LogsExporterType config)))"

subsection \<open>The kit and its construction\<close>

text \<open>
  The struct \<^verbatim>\<open>OTelKit\<close>. A nil handle is \<open>None\<close>. A tracer and a meter carry the
  instrumentation name and version they were made with, an instrument its name, the
  OpenTelemetry logger its name and version, and the \<^verbatim>\<open>slog\<close> logger the minimum level
  and the file of its handler (\<open>None\<close>: standard output).
\<close>

record slog_Logger =
  handler_level :: slog_Level
  handler_file :: "string option"

record OTelKit =
  tracer :: "(string \<times> string) option"
  tracerProvider :: "provider option"
  meter :: "(string \<times> string) option"
  meterProvider :: "provider option"
  loggerProvider :: "provider option"
  otelLogger :: "(string \<times> string) option"
  logger :: "slog_Logger option"
  config :: Config
  httpRequestDuration :: "string option"
  httpRequestsTotal :: "string option"
  activeSpansGauge :: "string option"
  businessOpsCounter :: "string option"

text \<open>\<^verbatim>\<open>&OTelKit{config: config}\<close>: every handle nil.\<close>

definition OTelKit_of :: "Config \<Rightarrow> OTelKit" where
  "OTelKit_of c = \<lparr> tracer = None, tracerProvider = None, meter = None,
     meterProvider = None, loggerProvider = None, otelLogger = None, logger = None,
     config = c, httpRequestDuration = None, httpRequestsTotal = None,
     activeSpansGauge = None, businessOpsCounter = None \<rparr>"

definition newResource :: "sdk \<Rightarrow> Config \<Rightarrow> error + unit" where
  "newResource k c = made (resource_Merge k) ()"

definition initTracing :: "sdk \<Rightarrow> OTelKit \<Rightarrow> error + OTelKit" where
  "initTracing k o' =
     (case createTraceExporter k (config o') of
        Inl err \<Rightarrow> Inl (Wrapf ''failed to create trace exporter'' err)
      | Inr exporter \<Rightarrow>
          (let tp = (case exporter of
                       Some e \<Rightarrow> TracerProvider (Some e)
                                   (TraceIDRatioBased (SampleRate (config o')))
                     | None \<Rightarrow> TracerProvider None NeverSample)
           in Inr (o'\<lparr> tracer := Some (ServiceName (config o'), ServiceVersion (config o')),
                        tracerProvider := Some tp \<rparr>)))"

text \<open>The four instruments are made in this order; the first failure ends the function.\<close>

definition initMetricsInstruments :: "sdk \<Rightarrow> OTelKit \<Rightarrow> error + OTelKit" where
  "initMetricsInstruments k o' =
     (case meter_instrument k ''http_request_duration_seconds'' of
        Some err \<Rightarrow> Inl (Wrapf ''failed to create http_request_duration_seconds histogram'' err)
      | None \<Rightarrow>
     (case meter_instrument k ''http_requests_total'' of
        Some err \<Rightarrow> Inl (Wrapf ''failed to create http_requests_total counter'' err)
      | None \<Rightarrow>
     (case meter_instrument k ''otelkit_active_spans'' of
        Some err \<Rightarrow> Inl (Wrapf ''failed to create otelkit_active_spans gauge'' err)
      | None \<Rightarrow>
     (case meter_instrument k ''otelkit_business_operations_total'' of
        Some err \<Rightarrow>
          Inl (Wrapf ''failed to create otelkit_business_operations_total counter'' err)
      | None \<Rightarrow>
          Inr (o'\<lparr> httpRequestDuration := Some ''http_request_duration_seconds'',
                   httpRequestsTotal := Some ''http_requests_total'',
                   activeSpansGauge := Some ''otelkit_active_spans'',
                   businessOpsCounter := Some ''otelkit_business_operations_total'' \<rparr>)))))"

definition initMetrics :: "sdk \<Rightarrow> OTelKit \<Rightarrow> error + OTelKit" where
  "initMetrics k o' =
     (case createMetricsExporter k (config o') of
        Inl err \<Rightarrow> Inl (Wrapf ''failed to create metrics exporter'' err)
      | Inr exporter \<Rightarrow>
          (case initMetricsInstruments k o' of
             Inl err \<Rightarrow> Inl (Wrapf ''failed to initialize metrics instruments'' err)
           | Inr o1 \<Rightarrow>
               Inr (o1\<lparr> meter := Some (ServiceName (config o'), ServiceVersion (config o')),
                        meterProvider := Some (MeterProvider exporter) \<rparr>)))"

definition initLogging :: "sdk \<Rightarrow> OTelKit \<Rightarrow> error + OTelKit" where
  "initLogging k o' =
     (case createLogsExporter k (config o') of
        Inl err \<Rightarrow> Inl (Wrapf ''failed to create logs exporter'' err)
      | Inr exporter \<Rightarrow>
          (let path = LogFilePath (config o');
               opened = (if path \<noteq> [] then os_OpenFile k path else None)
           in case opened of
                Some err \<Rightarrow> Inl (Wrapf (''failed to open log file '' @ path) err)
              | None \<Rightarrow>
                  Inr (o'\<lparr> loggerProvider := Some (LoggerProvider exporter),
                           otelLogger := Some (''otelkit'', ServiceVersion (config o')),
                           logger := Some \<lparr> handler_level = LogLevel (config o'),
                                            handler_file = (if path \<noteq> [] then Some path
                                                            else None) \<rparr> \<rparr>)))"

text \<open>
  \<^verbatim>\<open>New\<close>. The registration of the providers as process globals and the debug line
  printed at the end change nothing the facade reads afterwards and are left out.
\<close>

definition New :: "sdk \<Rightarrow> Config \<Rightarrow> error + OTelKit" where
  "New k c =
     (case newResource k c of
        Inl err \<Rightarrow> Inl (Wrapf ''failed to create resource'' err)
      | Inr res \<Rightarrow>
     (case initTracing k (OTelKit_of c) of
        Inl err \<Rightarrow> Inl (Wrapf ''failed to initialize tracing'' err)
      | Inr kit1 \<Rightarrow>
     (case (if EnableMetrics c then initMetrics k kit1 else Inr kit1) of
        Inl err \<Rightarrow> Inl (Wrapf ''failed to initialize metrics'' err)
      | Inr kit2 \<Rightarrow>
     (case (if EnableLogs c then initLogging k kit2 else Inr kit2) of
        Inl err \<Rightarrow> Inl (Wrapf ''failed to initialize logging'' err)
      | Inr kit3 \<Rightarrow> Inr kit3))))"

subsection \<open>Spans, metric points, log records: the world the facade acts on\<close>

text \<open>
  An attribute is a key with a typed value (\<^verbatim>\<open>attribute.KeyValue\<close>). A span records what
  was called on it: its name and parent, the attributes set, the events added, the errors
  recorded, the last status set and how often \<^verbatim>\<open>End\<close> was called.
\<close>

datatype attr_value = AString string | AInt int | AFloat64 real | ABool bool

type_synonym KeyValue = "string \<times> attr_value"

datatype codes = codes_Unset | codes_Error | codes_Ok

record span_data =
  span_name :: string
  span_parent :: "nat option"
  span_attrs :: "KeyValue list"
  span_events :: "(string \<times> KeyValue list) list"
  span_errors :: "error option list"
  span_status :: "codes \<times> string"
  span_ends :: nat

definition new_span :: "string \<Rightarrow> nat option \<Rightarrow> KeyValue list \<Rightarrow> span_data" where
  "new_span name parent attrs = \<lparr> span_name = name, span_parent = parent,
     span_attrs = attrs, span_events = [], span_errors = [],
     span_status = (codes_Unset, []), span_ends = 0 \<rparr>"

text \<open>The attributes of \<^verbatim>\<open>log/slog\<close> and of the OpenTelemetry log API.\<close>

datatype slog_Attr =
    slog_String string string
  | slog_Int string int
  | slog_Float64 string real
  | slog_Bool string bool
  | slog_Any string "error option"

datatype otellog_KeyValue =
    otellog_String string string
  | otellog_Int64 string int
  | otellog_Float64 string real
  | otellog_Bool string bool

datatype metric_value = IntValue int | FloatValue real

text \<open>
  A context carries the active span, if any: \<open>None\<close> is a context without a span. A span
  handle is the same: \<^verbatim>\<open>trace.SpanFromContext\<close> gives the no-op span (\<open>None\<close>) for a
  context without one, and every method of the no-op span does nothing.
\<close>

type_synonym Context = "nat option"

type_synonym Span = "nat option"

record world =
  spans :: "nat \<Rightarrow> span_data"
  next_span :: nat
  clock :: nat
  metric_points :: "(string \<times> metric_value \<times> KeyValue list) list"
  slog_records :: "(string option \<times> slog_Level \<times> string \<times> slog_Attr list) list"
  otel_records :: "(nat \<times> nat \<times> string \<times> otellog_KeyValue list \<times> nat option) list"
  shutdown_result :: "provider \<Rightarrow> error option"
  shutdown_calls :: "provider list"

text \<open>A world in which nothing has happened yet and every provider shuts down cleanly.\<close>

definition world0 :: world where
  "world0 = \<lparr> spans = (\<lambda>_. new_span [] None []), next_span = 0, clock = 0,
     metric_points = [], slog_records = [], otel_records = [],
     shutdown_result = (\<lambda>_. None), shutdown_calls = [] \<rparr>"

definition SpanFromContext :: "Context \<Rightarrow> Span" where
  "SpanFromContext ctx = ctx"

definition on_span :: "Span \<Rightarrow> (span_data \<Rightarrow> span_data) \<Rightarrow> world \<Rightarrow> world" where
  "on_span sp f w = (case sp of None \<Rightarrow> w
                     | Some i \<Rightarrow> w\<lparr> spans := (spans w)(i := f (spans w i)) \<rparr>)"

definition span_SetAttributes :: "Span \<Rightarrow> KeyValue list \<Rightarrow> world \<Rightarrow> world" where
  "span_SetAttributes sp attrs = on_span sp (\<lambda>d. d\<lparr> span_attrs := span_attrs d @ attrs \<rparr>)"

definition span_AddEvent :: "Span \<Rightarrow> string \<Rightarrow> KeyValue list \<Rightarrow> world \<Rightarrow> world" where
  "span_AddEvent sp name attrs =
     on_span sp (\<lambda>d. d\<lparr> span_events := span_events d @ [(name, attrs)] \<rparr>)"

definition span_RecordError :: "Span \<Rightarrow> error option \<Rightarrow> world \<Rightarrow> world" where
  "span_RecordError sp err = on_span sp (\<lambda>d. d\<lparr> span_errors := span_errors d @ [err] \<rparr>)"

definition span_SetStatus :: "Span \<Rightarrow> codes \<Rightarrow> string \<Rightarrow> world \<Rightarrow> world" where
  "span_SetStatus sp code description = on_span sp (\<lambda>d. d\<lparr> span_status := (code, description) \<rparr>)"

definition span_End :: "Span \<Rightarrow> world \<Rightarrow> world" where
  "span_End sp = on_span sp (\<lambda>d. d\<lparr> span_ends := Suc (span_ends d) \<rparr>)"

text \<open>
  \<^verbatim>\<open>tracer.Start\<close>: a new span, child of the span of the context, and the context that
  carries it.
\<close>

definition tracer_Start ::
  "Context \<Rightarrow> string \<Rightarrow> KeyValue list \<Rightarrow> world \<Rightarrow> (Context \<times> Span) \<times> world" where
  "tracer_Start ctx spanName attrs w =
     (let i = next_span w
      in ((Some i, Some i),
          w\<lparr> spans := (spans w)(i := new_span spanName ctx attrs), next_span := Suc i \<rparr>))"

subsection \<open>Shutdown\<close>

text \<open>
  What the \<^verbatim>\<open>Shutdown\<close> of a provider returns is the SDK's business
  (\<open>shutdown_result\<close>); the world keeps the list of the providers it was called on.
\<close>

definition provider_Shutdown :: "provider \<Rightarrow> world \<Rightarrow> error option \<times> world" where
  "provider_Shutdown p w = (shutdown_result w p, w\<lparr> shutdown_calls := shutdown_calls w @ [p] \<rparr>)"

definition shutdown_one ::
  "provider option \<Rightarrow> string \<Rightarrow> error list \<times> world \<Rightarrow> error list \<times> world" where
  "shutdown_one h label st =
     (case h of
        None \<Rightarrow> st
      | Some p \<Rightarrow>
          (case provider_Shutdown p (snd st) of
             (Some err, w') \<Rightarrow> (fst st @ [Wrapf label err], w')
           | (None, w') \<Rightarrow> (fst st, w')))"

definition Shutdown :: "OTelKit \<Rightarrow> Context \<Rightarrow> world \<Rightarrow> error option \<times> world" where
  "Shutdown o' ctx w =
     (let st1 = shutdown_one (tracerProvider o') ''tracer provider shutdown'' ([], w);
          st2 = shutdown_one (meterProvider o') ''meter provider shutdown'' st1;
          st3 = shutdown_one (loggerProvider o') ''logger provider shutdown'' st2
      in (if length (fst st3) > 0 then Some (Errorfv ''shutdown errors'' (fst st3)) else None,
          snd st3))"

subsection \<open>Tracing operations\<close>

text \<open>
  A body is a function of the context it receives and of the world; it returns an error
  or nil, or panics. Calling \<^verbatim>\<open>Start\<close> on a nil tracer is a nil dereference; every kit
  that \<^verbatim>\<open>New\<close> returns has a tracer.
\<close>

type_synonym body = "Context \<Rightarrow> world \<Rightarrow> error option outcome \<times> world"

definition StartSpan ::
  "OTelKit \<Rightarrow> Context \<Rightarrow> string \<Rightarrow> KeyValue list \<Rightarrow> world
     \<Rightarrow> (Context \<times> Span) outcome \<times> world" where
  "StartSpan o' ctx spanName opts w =
     (case tracer o' of
        None \<Rightarrow> (Panic nil_deref, w)
      | Some t \<Rightarrow> (case tracer_Start ctx spanName opts w of (r, w') \<Rightarrow> (Return r, w')))"

text \<open>\<^verbatim>\<open>defer span.End()\<close> runs on every way out of the function once the span exists.\<close>

definition TraceFunction ::
  "OTelKit \<Rightarrow> Context \<Rightarrow> string \<Rightarrow> body \<Rightarrow> KeyValue list \<Rightarrow> world
     \<Rightarrow> error option outcome \<times> world" where
  "TraceFunction o' ctx functionName fn attrs w =
     (case StartSpan o' ctx functionName [] w of
        (Panic p, w1) \<Rightarrow> (Panic p, w1)
      | (Return (ctx1, sp), w1) \<Rightarrow>
          (case fn ctx1 (span_SetAttributes sp attrs w1) of
             (Panic p, w3) \<Rightarrow> (Panic p, span_End sp w3)
           | (Return None, w3) \<Rightarrow> (Return None, span_End sp w3)
           | (Return (Some err), w3) \<Rightarrow>
               (Return (Some err),
                span_End sp
                  (span_SetStatus sp codes_Error (error_Error err)
                     (span_RecordError sp (Some err) w3)))))"

definition TraceHTTPHandler :: "OTelKit \<Rightarrow> string \<Rightarrow> body \<Rightarrow> body" where
  "TraceHTTPHandler o' handlerName handler =
     (\<lambda>ctx. TraceFunction o' ctx (''http.'' @ handlerName) handler [])"

definition AddEvent :: "OTelKit \<Rightarrow> Context \<Rightarrow> string \<Rightarrow> KeyValue list \<Rightarrow> world \<Rightarrow> world" where
  "AddEvent o' ctx name attrs w = span_AddEvent (SpanFromContext ctx) name attrs w"

definition SetAttributes :: "OTelKit \<Rightarrow> Context \<Rightarrow> KeyValue list \<Rightarrow> world \<Rightarrow> world" where
  "SetAttributes o' ctx attrs w = span_SetAttributes (SpanFromContext ctx) attrs w"

text \<open>
  \<^verbatim>\<open>RecordError\<close> evaluates \<^verbatim>\<open>err.Error()\<close> as the argument of \<^verbatim>\<open>SetStatus\<close>: on a nil
  error that is a method call on a nil interface, which panics, after
  \<^verbatim>\<open>span.RecordError(err)\<close> has run.
\<close>

definition RecordError :: "OTelKit \<Rightarrow> Context \<Rightarrow> error option \<Rightarrow> world \<Rightarrow> unit outcome \<times> world" where
  "RecordError o' ctx err w =
     (let sp = SpanFromContext ctx;
          w1 = span_RecordError sp err w
      in case err of
           None \<Rightarrow> (Panic nil_deref, w1)
         | Some e \<Rightarrow> (Return (), span_SetStatus sp codes_Error (error_Error e) w1))"

subsection \<open>Logging and metrics operations\<close>

text \<open>
  \<^verbatim>\<open>Logger.LogAttrs\<close> of \<^verbatim>\<open>log/slog\<close> on a logger that is not nil: the handler keeps
  the records at or above its level.
\<close>

definition slog_LogAttrs ::
  "slog_Logger \<Rightarrow> Context \<Rightarrow> slog_Level \<Rightarrow> string \<Rightarrow> slog_Attr list \<Rightarrow> world \<Rightarrow> world" where
  "slog_LogAttrs l ctx level msg attrs w =
     (if handler_level l \<le> level
      then w\<lparr> slog_records := slog_records w @ [(handler_file l, level, msg, attrs)] \<rparr>
      else w)"

text \<open>The severities of the OpenTelemetry log API.\<close>

definition SeverityDebug :: nat where "SeverityDebug = 5"
definition SeverityInfo :: nat where "SeverityInfo = 9"
definition SeverityWarn :: nat where "SeverityWarn = 13"
definition SeverityError :: nat where "SeverityError = 17"

text \<open>\<^verbatim>\<open>slog.Any\<close> of an error prints as its message, of nil as \<^verbatim>\<open><nil>\<close>.\<close>

fun convertSlogAttr :: "slog_Attr \<Rightarrow> otellog_KeyValue" where
  "convertSlogAttr (slog_String k v) = otellog_String k v"
| "convertSlogAttr (slog_Int k v) = otellog_Int64 k v"
| "convertSlogAttr (slog_Float64 k v) = otellog_Float64 k v"
| "convertSlogAttr (slog_Bool k v) = otellog_Bool k v"
| "convertSlogAttr (slog_Any k v) =
     otellog_String k (case v of None \<Rightarrow> ''<nil>'' | Some e \<Rightarrow> error_Error e)"

text \<open>
  The emitted record: time, severity, body, attributes, and the span of the context (the
  pair \<^verbatim>\<open>trace_id\<close>, \<^verbatim>\<open>span_id\<close> that the code adds when the span context is valid).
\<close>

definition emitOTelLog ::
  "OTelKit \<Rightarrow> Context \<Rightarrow> nat \<Rightarrow> string \<Rightarrow> slog_Attr list \<Rightarrow> world \<Rightarrow> world" where
  "emitOTelLog o' ctx severity msg attrs w =
     (case otelLogger o' of
        None \<Rightarrow> w
      | Some lg \<Rightarrow>
          w\<lparr> otel_records := otel_records w @
                [(clock w, severity, msg, map convertSlogAttr attrs, SpanFromContext ctx)] \<rparr>)"

definition LogInfo :: "OTelKit \<Rightarrow> Context \<Rightarrow> string \<Rightarrow> slog_Attr list \<Rightarrow> world \<Rightarrow> world" where
  "LogInfo o' ctx msg attrs w =
     emitOTelLog o' ctx SeverityInfo msg attrs
       (case logger o' of None \<Rightarrow> w | Some l \<Rightarrow> slog_LogAttrs l ctx LevelInfo msg attrs w)"

definition LogError ::
  "OTelKit \<Rightarrow> Context \<Rightarrow> string \<Rightarrow> error option \<Rightarrow> slog_Attr list \<Rightarrow> world \<Rightarrow> world" where
  "LogError o' ctx msg err attrs w =
     (let allAttrs = attrs @ [slog_Any ''error'' err]
      in emitOTelLog o' ctx SeverityError msg allAttrs
           (case logger o' of None \<Rightarrow> w
            | Some l \<Rightarrow> slog_LogAttrs l ctx LevelError msg allAttrs w))"

definition LogDebug :: "OTelKit \<Rightarrow> Context \<Rightarrow> string \<Rightarrow> slog_Attr list \<Rightarrow> world \<Rightarrow> world" where
  "LogDebug o' ctx msg attrs w =
     emitOTelLog o' ctx SeverityDebug msg attrs
       (case logger o' of None \<Rightarrow> w | Some l \<Rightarrow> slog_LogAttrs l ctx LevelDebug msg attrs w)"

definition LogWarn :: "OTelKit \<Rightarrow> Context \<Rightarrow> string \<Rightarrow> slog_Attr list \<Rightarrow> world \<Rightarrow> world" where
  "LogWarn o' ctx msg attrs w =
     emitOTelLog o' ctx SeverityWarn msg attrs
       (case logger o' of None \<Rightarrow> w | Some l \<Rightarrow> slog_LogAttrs l ctx LevelWarn msg attrs w)"

text \<open>An instrument records a point: its name, the value and the attributes.\<close>

definition instrument_record ::
  "string \<Rightarrow> metric_value \<Rightarrow> KeyValue list \<Rightarrow> world \<Rightarrow> world" where
  "instrument_record name v attrs w = w\<lparr> metric_points := metric_points w @ [(name, v, attrs)] \<rparr>"

definition RecordMetric ::
  "OTelKit \<Rightarrow> Context \<Rightarrow> string \<Rightarrow> int \<Rightarrow> KeyValue list \<Rightarrow> world \<Rightarrow> world" where
  "RecordMetric o' ctx operation v attrs w =
     (case businessOpsCounter o' of
        None \<Rightarrow> w
      | Some c \<Rightarrow>
          instrument_record c (IntValue v) (attrs @ [(''operation_type'', AString operation)]) w)"

text \<open>A \<^verbatim>\<open>time.Duration\<close> is a number of nanoseconds.\<close>

definition RecordHTTPMetrics ::
  "OTelKit \<Rightarrow> Context \<Rightarrow> string \<Rightarrow> string \<Rightarrow> int \<Rightarrow> world \<Rightarrow> world" where
  "RecordHTTPMetrics o' ctx method statusCode' duration w =
     (let w1 = (case httpRequestsTotal o' of
                  None \<Rightarrow> w
                | Some c \<Rightarrow> instrument_record c (IntValue 1)
                    [(''method'', AString method), (''status_code'', AString statusCode')] w)
      in case httpRequestDuration o' of
           None \<Rightarrow> w1
         | Some h \<Rightarrow> instrument_record h (FloatValue (real_of_int duration / 1000000000))
             [(''method'', AString method), (''status_code'', AString statusCode')] w1)"

definition IncrementActiveSpans :: "OTelKit \<Rightarrow> Context \<Rightarrow> world \<Rightarrow> world" where
  "IncrementActiveSpans o' ctx w =
     (case activeSpansGauge o' of None \<Rightarrow> w
      | Some g \<Rightarrow> instrument_record g (IntValue 1) [] w)"

definition DecrementActiveSpans :: "OTelKit \<Rightarrow> Context \<Rightarrow> world \<Rightarrow> world" where
  "DecrementActiveSpans o' ctx w =
     (case activeSpansGauge o' of None \<Rightarrow> w
      | Some g \<Rightarrow> instrument_record g (IntValue (- 1)) [] w)"

subsection \<open>Timed and conditional tracing\<close>

text \<open>
  \<^verbatim>\<open>time.Now\<close> reads the clock of the world, which the bodies advance; a duration is the
  difference of two readings. After the traced call, \<^verbatim>\<open>TimedOperation\<close> takes the span of
  the context it was given, not the context that \<^verbatim>\<open>TraceFunction\<close> made for the body.
\<close>

definition TimedOperation ::
  "OTelKit \<Rightarrow> Context \<Rightarrow> string \<Rightarrow> body \<Rightarrow> world
     \<Rightarrow> (int \<times> error option) outcome \<times> world" where
  "TimedOperation o' ctx operationName fn w =
     (let start = clock w
      in case TraceFunction o' ctx operationName (\<lambda>c. fn c) [] w of
           (Panic p, w1) \<Rightarrow> (Panic p, w1)
         | (Return err, w1) \<Rightarrow>
             (let duration = int (clock w1) - int start;
                  sp = SpanFromContext ctx
              in (Return (duration, err),
                  span_SetAttributes sp
                    [(''operation.duration_ms'', AInt (duration div 1000000))] w1)))"

definition ConditionalTrace ::
  "OTelKit \<Rightarrow> Context \<Rightarrow> bool \<Rightarrow> string \<Rightarrow> body \<Rightarrow> world
     \<Rightarrow> error option outcome \<times> world" where
  "ConditionalTrace o' ctx condition spanName fn w =
     (if condition then TraceFunction o' ctx spanName fn [] w else fn ctx w)"

subsection \<open>The HTTP middleware\<close>

text \<open>\<^verbatim>\<open>strconv.Itoa\<close>: the decimal digits of an integer.\<close>

definition digit_char :: "nat \<Rightarrow> char" where
  "digit_char d = ''0123456789'' ! d"

fun nat_digits :: "nat \<Rightarrow> string" where
  "nat_digits n = (if n < 10 then [digit_char n]
                   else nat_digits (n div 10) @ [digit_char (n mod 10)])"

definition Itoa :: "int \<Rightarrow> string" where
  "Itoa i = (if i < 0 then ''-'' @ nat_digits (nat (- i)) else nat_digits (nat i))"

text \<open>
  The writer of \<^verbatim>\<open>net/http\<close>. Once the header is written, a further \<^verbatim>\<open>WriteHeader\<close> is
  ignored. Before that, a code outside 100..999 panics; a code 1xx other than 101 sends
  an informational response and leaves the status of the response open; any other code
  is the status of the response. A \<^verbatim>\<open>Write\<close> before the header is written sends status
  200 first. The writer keeps the status and the body of the response; informational
  responses are not kept.
\<close>

record ResponseWriter =
  wroteHeader :: bool
  status :: int
  written :: string

definition ResponseWriter0 :: ResponseWriter where
  "ResponseWriter0 = \<lparr> wroteHeader = False, status = 0, written = [] \<rparr>"

definition http_WriteHeader :: "int \<Rightarrow> ResponseWriter \<Rightarrow> unit outcome \<times> ResponseWriter" where
  "http_WriteHeader code rw =
     (if wroteHeader rw then (Return (), rw)
      else if code < 100 \<or> code > 999
        then (Panic (''invalid WriteHeader code '' @ Itoa code), rw)
      else if 100 \<le> code \<and> code \<le> 199 \<and> code \<noteq> 101 then (Return (), rw)
      else (Return (), rw\<lparr> wroteHeader := True, status := code \<rparr>))"

definition http_Write :: "string \<Rightarrow> ResponseWriter \<Rightarrow> unit outcome \<times> ResponseWriter" where
  "http_Write b rw =
     (let rw1 = (if wroteHeader rw then rw else snd (http_WriteHeader 200 rw))
      in (Return (), rw1\<lparr> written := written rw1 @ b \<rparr>))"

text \<open>
  The struct \<^verbatim>\<open>responseWriter\<close> of the middleware. Its \<^verbatim>\<open>WriteHeader\<close> stores the code,
  then forwards it (so the code is stored also when the writer underneath panics);
  \<^verbatim>\<open>Write\<close> is the embedded writer's method.
\<close>

record responseWriter =
  ResponseWriter :: ResponseWriter
  statusCode :: int

definition WriteHeader :: "int \<Rightarrow> responseWriter \<Rightarrow> unit outcome \<times> responseWriter" where
  "WriteHeader code rw =
     (case http_WriteHeader code (ResponseWriter rw) of
        (res, inner) \<Rightarrow> (res, rw\<lparr> statusCode := code, ResponseWriter := inner \<rparr>))"

definition Write :: "string \<Rightarrow> responseWriter \<Rightarrow> unit outcome \<times> responseWriter" where
  "Write b rw =
     (case http_Write b (ResponseWriter rw) of
        (res, inner) \<Rightarrow> (res, rw\<lparr> ResponseWriter := inner \<rparr>))"

text \<open>
  A handler is given the request (with its context) and the world; it returns the calls
  it makes on the writer, in order, the world as it leaves it, and returns or panics. A
  call on the writer that panics ends the handler with that panic: the calls after it are
  not made.
\<close>

datatype writer_call = Call_WriteHeader int | Call_Write string

fun apply_call :: "writer_call \<Rightarrow> responseWriter \<Rightarrow> unit outcome \<times> responseWriter" where
  "apply_call (Call_WriteHeader code) rw = WriteHeader code rw"
| "apply_call (Call_Write b) rw = Write b rw"

fun serve_calls :: "writer_call list \<Rightarrow> responseWriter \<Rightarrow> unit outcome \<times> responseWriter" where
  "serve_calls [] rw = (Return (), rw)"
| "serve_calls (x # xs) rw =
     (case apply_call x rw of
        (Panic p, rw1) \<Rightarrow> (Panic p, rw1)
      | (Return u, rw1) \<Rightarrow> serve_calls xs rw1)"

record Request =
  Method :: string
  URL_Path :: string
  URL_String :: string
  UserAgent :: string
  RemoteAddr :: string
  req_Context :: Context

type_synonym Handler = "Request \<Rightarrow> world \<Rightarrow> (writer_call list \<times> unit outcome) \<times> world"

text \<open>
  \<^verbatim>\<open>HTTPMiddleware\<close>, applied to the next handler, the writer and the request. The table
  \<^verbatim>\<open>http.StatusText\<close> is a parameter. The deferred calls run last, also when the handler
  or the middleware panics: first \<^verbatim>\<open>DecrementActiveSpans\<close>, then \<^verbatim>\<open>span.End\<close>. The
  completion record goes through \<^verbatim>\<open>o.logger.LogAttrs\<close> directly: on a nil logger that is
  a nil dereference.
\<close>

definition HTTPMiddleware ::
  "(int \<Rightarrow> string) \<Rightarrow> OTelKit \<Rightarrow> Handler \<Rightarrow> ResponseWriter \<Rightarrow> Request \<Rightarrow> world
     \<Rightarrow> (unit outcome \<times> ResponseWriter) \<times> world" where
  "HTTPMiddleware StatusText o' next rw r w =
     (let start = clock w
      in case StartSpan o' (req_Context r) (Method r @ '' '' @ URL_Path r)
                [(''http.method'', AString (Method r)),
                 (''http.url'', AString (URL_String r)),
                 (''http.route'', AString (URL_Path r)),
                 (''http.user_agent'', AString (UserAgent r)),
                 (''http.remote_addr'', AString (RemoteAddr r))] w of
           (Panic p, w1) \<Rightarrow> ((Panic p, rw), w1)
         | (Return (ctx, sp), w1) \<Rightarrow>
             (let deferred = (\<lambda>v. span_End sp (DecrementActiveSpans o' ctx v));
                  w2 = IncrementActiveSpans o' ctx w1;
                  w3 = LogInfo o' ctx ''HTTP request started''
                         [slog_String ''method'' (Method r),
                          slog_String ''path'' (URL_Path r),
                          slog_String ''user_agent'' (UserAgent r),
                          slog_String ''remote_addr'' (RemoteAddr r)] w2;
                  wrapped0 = \<lparr> ResponseWriter = rw, statusCode = 200 \<rparr>
              in case next (r\<lparr> req_Context := ctx \<rparr>) w3 of
                   ((calls, ended), w4) \<Rightarrow>
              (case serve_calls calls wrapped0 of
                 (Panic p, wrapped) \<Rightarrow> ((Panic p, ResponseWriter wrapped), deferred w4)
               | (Return u, wrapped) \<Rightarrow>
              (case ended of
                 Panic p \<Rightarrow> ((Panic p, ResponseWriter wrapped), deferred w4)
               | Return u' \<Rightarrow>
                     (let duration = int (clock w4) - int start;
                          statusCode' = Itoa (statusCode wrapped);
                          w5 = span_SetAttributes sp
                                 [(''http.status_code'', AInt (statusCode wrapped)),
                                  (''http.status_text'', AString (StatusText (statusCode wrapped))),
                                  (''http.duration_ms'', AFloat64 (real_of_int duration / 1000000))] w4;
                          w6 = (if statusCode wrapped \<ge> 400
                                then span_SetStatus sp codes_Error (StatusText (statusCode wrapped)) w5
                                else w5);
                          w7 = RecordHTTPMetrics o' ctx (Method r) statusCode' duration w6;
                          logLevel = (if statusCode wrapped \<ge> 500 then LevelError
                                      else if statusCode wrapped \<ge> 400 then LevelWarn
                                      else LevelInfo)
                      in case logger o' of
                           None \<Rightarrow> ((Panic nil_deref, ResponseWriter wrapped), deferred w7)
                         | Some l \<Rightarrow>
                             (let w8 = slog_LogAttrs l ctx logLevel ''HTTP request completed''
                                         [slog_String ''method'' (Method r),
                                          slog_String ''path'' (URL_Path r),
                                          slog_Int ''status_code'' (statusCode wrapped),
                                          slog_String ''status_text'' (StatusText (statusCode wrapped)),
                                          slog_Float64 ''duration_ms'' (real_of_int duration / 1000000)] w7;
                                  w9 = (if statusCode wrapped \<ge> 400
                                        then LogError o' ctx ''HTTP request failed'' None
                                               [slog_Int ''status_code'' (statusCode wrapped),
                                                slog_String ''path'' (URL_Path r)] w8
                                        else w8)
                              in ((Return (), ResponseWriter wrapped), deferred w9)))))))"

subsection \<open>Sample kits, bodies, handlers and runs\<close>

text \<open>
  Concrete inputs on which the theorems below are evaluated. \<open>example_kit\<close> is the kit
  that \<^verbatim>\<open>New\<close> builds from the default configuration with the service name and the
  sample rate overridden; \<open>bare_kit\<close> is the kit built from a configuration that sets
  only the trace exporter to none, so that metrics and logs are disabled;
  \<open>logs_test_config\<close> is the configuration that the repository's own logs test program
  passes to \<^verbatim>\<open>New\<close>, which names no trace exporter.
\<close>

definition example_kit :: OTelKit where
  "example_kit = \<lparr> tracer = Some (''svc'', ''1.0.0''),
     tracerProvider = Some (TracerProvider (Some StdoutTraceExporter) (TraceIDRatioBased 1)),
     meter = Some (''svc'', ''1.0.0''),
     meterProvider = Some (MeterProvider (Some (ExporterReader PrometheusExporter))),
     loggerProvider = Some (LoggerProvider (Some StdoutLogExporter)),
     otelLogger = Some (''otelkit'', ''1.0.0''),
     logger = Some \<lparr> handler_level = 0, handler_file = None \<rparr>,
     config = (DefaultConfig (\<lambda>_. []))\<lparr> ServiceName := ''svc'', SampleRate := 1 \<rparr>,
     httpRequestDuration = Some ''http_request_duration_seconds'',
     httpRequestsTotal = Some ''http_requests_total'',
     activeSpansGauge = Some ''otelkit_active_spans'',
     businessOpsCounter = Some ''otelkit_business_operations_total'' \<rparr>"

definition bare_config :: Config where
  "bare_config = Config_zero\<lparr> ExporterType := ExporterNone \<rparr>"

definition bare_kit :: OTelKit where
  "bare_kit = (OTelKit_of bare_config)
     \<lparr> tracer := Some ([], []), tracerProvider := Some (TracerProvider None NeverSample) \<rparr>"

definition logs_test_config :: Config where
  "logs_test_config = Config_zero\<lparr> ServiceName := ''test-logs'', ServiceVersion := ''1.0.0'',
     Environment := ''development'', EnableLogs := True, LogsExporterType := ExporterStdout,
     Debug := True, LogLevel := LevelDebug \<rparr>"

definition body_boom :: body where
  "body_boom = (\<lambda>c v. (Return (Some (Err ''boom'')), v))"

definition body_sleep :: body where
  "body_sleep = (\<lambda>c v. (Return None, v\<lparr> clock := clock v + 10000000 \<rparr>))"

definition handler_ok :: Handler where
  "handler_ok = (\<lambda>r v. (([Call_Write ''hello''], Return ()), v\<lparr> clock := clock v + 2000000 \<rparr>))"

definition handler_twice :: Handler where
  "handler_twice =
     (\<lambda>r v. (([Call_WriteHeader 404, Call_WriteHeader 200], Return ()),
              v\<lparr> clock := clock v + 2000000 \<rparr>))"

definition StatusText_sample :: "int \<Rightarrow> string" where
  "StatusText_sample c = (if c = 200 then ''OK'' else if c = 404 then ''Not Found''
                          else if c = 500 then ''Internal Server Error'' else [])"

definition request_get :: Request where
  "request_get = \<lparr> Method = ''GET'', URL_Path = ''/users'', URL_String = ''/users?id=1'',
     UserAgent = ''curl'', RemoteAddr = ''10.0.0.1:5000'', req_Context = None \<rparr>"

definition world_trace_fails :: world where
  "world_trace_fails = world0\<lparr> shutdown_result :=
     (\<lambda>p. case p of TracerProvider e sm \<Rightarrow> Some (Err ''context deadline exceeded'')
           | MeterProvider rd \<Rightarrow> None
           | LoggerProvider e \<Rightarrow> None) \<rparr>"

definition run_twice :: "(unit outcome \<times> ResponseWriter) \<times> world" where
  "run_twice = HTTPMiddleware StatusText_sample example_kit handler_twice ResponseWriter0
                 request_get world0"

definition run_timed :: "(int \<times> error option) outcome \<times> world" where
  "run_timed = TimedOperation example_kit None ''timed_test'' body_sleep world0"

definition run_timed_child :: "(int \<times> error option) outcome \<times> world" where
  "run_timed_child = TimedOperation example_kit (Some 0) ''timed_test'' body_sleep
                       (snd (tracer_Start None ''parent'' [] world0))"

subsection \<open>What a shutdown is expected to report\<close>

text \<open>
  Stated independently of \<^verbatim>\<open>Shutdown\<close>: the providers whose handle is not nil, in the
  order trace, metric, log, and the wrapped errors of those among them whose shutdown
  fails.
\<close>

definition present_providers :: "OTelKit \<Rightarrow> provider list" where
  "present_providers o' =
     (case tracerProvider o' of None \<Rightarrow> [] | Some p \<Rightarrow> [p]) @
     (case meterProvider o' of None \<Rightarrow> [] | Some p \<Rightarrow> [p]) @
     (case loggerProvider o' of None \<Rightarrow> [] | Some p \<Rightarrow> [p])"

definition failure_of :: "world \<Rightarrow> string \<Rightarrow> provider option \<Rightarrow> error list" where
  "failure_of w label h =
     (case h of None \<Rightarrow> []
      | Some p \<Rightarrow> (case shutdown_result w p of None \<Rightarrow> [] | Some e \<Rightarrow> [Wrapf label e]))"

definition shutdown_failures :: "OTelKit \<Rightarrow> world \<Rightarrow> error list" where
  "shutdown_failures o' w =
     failure_of w ''tracer provider shutdown'' (tracerProvider o') @
     failure_of w ''meter provider shutdown'' (meterProvider o') @
     failure_of w ''logger provider shutdown'' (loggerProvider o')"

section \<open>Properties\<close>

subsection \<open>Auxiliary facts\<close>

lemmas Exporter_defs =
  ExporterJaeger_def ExporterOTLP_def ExporterStdout_def ExporterPrometheus_def ExporterNone_def

lemmas Level_defs = LevelDebug_def LevelInfo_def LevelWarn_def LevelError_def

lemmas New_defs = New_def newResource_def initTracing_def initMetrics_def initLogging_def
  initMetricsInstruments_def createTraceExporter_def createMetricsExporter_def
  createLogsExporter_def made_def OTelKit_of_def

lemmas span_defs = on_span_def span_SetAttributes_def span_AddEvent_def span_RecordError_def
  span_SetStatus_def span_End_def SpanFromContext_def

lemmas span_ops = span_SetAttributes_def span_SetStatus_def span_End_def

text \<open>
  \<^verbatim>\<open>DefaultConfig\<close>, field by field: the value of the environment variable when it is
  set and not empty, the default otherwise; the sample rate and the Prometheus port are
  constants.
\<close>

lemma DefaultConfig_noenv: "DefaultConfig (\<lambda>_. []) = \<lparr> ServiceName = ''unknown-service'', ServiceVersion = ''1.0.0'',
     Environment = ''development'', ExporterType = ''stdout'',
     JaegerURL = ''http://localhost:14268/api/traces'', OTLPEndpoint = ''http://localhost:4318'',
     SampleRate = 1/10, Debug = False, EnableMetrics = True, EnableLogs = True,
     MetricsExporterType = ''prometheus'', LogsExporterType = ''stdout'',
     PrometheusPort = 9090, LogLevel = 0, LogFilePath = [] \<rparr>"
  by (simp add: DefaultConfig_def getEnvOrDefault_def Exporter_defs Level_defs)

lemma DefaultConfig_from_env:
  "ServiceName (DefaultConfig env) =
     (if env ''OTEL_SERVICE_NAME'' \<noteq> [] then env ''OTEL_SERVICE_NAME'' else ''unknown-service'')"
  "ServiceVersion (DefaultConfig env) =
     (if env ''OTEL_SERVICE_VERSION'' \<noteq> [] then env ''OTEL_SERVICE_VERSION'' else ''1.0.0'')"
  "Environment (DefaultConfig env) =
     (if env ''OTEL_ENVIRONMENT'' \<noteq> [] then env ''OTEL_ENVIRONMENT'' else ''development'')"
  "ExporterType (DefaultConfig env) =
     (if env ''OTEL_EXPORTER_TYPE'' \<noteq> [] then env ''OTEL_EXPORTER_TYPE'' else ExporterStdout)"
  "MetricsExporterType (DefaultConfig env) =
     (if env ''OTEL_METRICS_EXPORTER'' \<noteq> [] then env ''OTEL_METRICS_EXPORTER''
      else ExporterPrometheus)"
  "LogsExporterType (DefaultConfig env) =
     (if env ''OTEL_LOGS_EXPORTER'' \<noteq> [] then env ''OTEL_LOGS_EXPORTER'' else ExporterStdout)"
  "LogFilePath (DefaultConfig env) = env ''OTEL_LOG_FILE_PATH''"
  "EnableMetrics (DefaultConfig env) =
     (env ''OTEL_ENABLE_METRICS'' = [] \<or> env ''OTEL_ENABLE_METRICS'' = ''true'')"
  "EnableLogs (DefaultConfig env) =
     (env ''OTEL_ENABLE_LOGS'' = [] \<or> env ''OTEL_ENABLE_LOGS'' = ''true'')"
  "Debug (DefaultConfig env) = (env ''OTEL_DEBUG'' = ''true'')"
  "SampleRate (DefaultConfig env) = 1 / 10"
  "PrometheusPort (DefaultConfig env) = 9090"
  by (auto simp: DefaultConfig_def getEnvOrDefault_def Let_def)

lemma example_kit_New:
  "New sdk_ok ((DefaultConfig (\<lambda>_. []))\<lparr> ServiceName := ''svc'', SampleRate := 1 \<rparr>) = Inr example_kit"
  by (simp add: DefaultConfig_noenv New_defs sdk_ok_def example_kit_def Exporter_defs)

lemma bare_kit_New: "New sdk_ok bare_config = Inr bare_kit"
  by (simp add: New_defs sdk_ok_def Config_zero_def Exporter_defs bare_config_def bare_kit_def)

text \<open>What a successful \<^verbatim>\<open>New\<close> has done, step by step.\<close>

lemma initTracing_Inr:
  assumes "initTracing k o' = Inr o1"
  shows "\<exists>tp. o1 = o'\<lparr> tracer := Some (ServiceName (config o'), ServiceVersion (config o')),
                        tracerProvider := Some tp \<rparr>"
  using assms unfolding initTracing_def
  by (cases "createTraceExporter k (config o')") (auto simp: Let_def)

lemma initMetricsInstruments_Inr:
  assumes "initMetricsInstruments k o' = Inr o1"
  shows "o1 = o'\<lparr> httpRequestDuration := Some ''http_request_duration_seconds'',
                   httpRequestsTotal := Some ''http_requests_total'',
                   activeSpansGauge := Some ''otelkit_active_spans'',
                   businessOpsCounter := Some ''otelkit_business_operations_total'' \<rparr>"
  using assms unfolding initMetricsInstruments_def
  by (simp split: option.splits)

lemma initMetrics_Inr:
  assumes "initMetrics k o' = Inr o1"
  shows "\<exists>mp. o1 = o'\<lparr> httpRequestDuration := Some ''http_request_duration_seconds'',
                   httpRequestsTotal := Some ''http_requests_total'',
                   activeSpansGauge := Some ''otelkit_active_spans'',
                   businessOpsCounter := Some ''otelkit_business_operations_total'',
                   meter := Some (ServiceName (config o'), ServiceVersion (config o')),
                   meterProvider := Some mp \<rparr>"
proof (cases "createMetricsExporter k (config o')")
  case (Inl e)
  with assms show ?thesis by (simp add: initMetrics_def)
next
  case (Inr ex)
  show ?thesis
  proof (cases "initMetricsInstruments k o'")
    case (Inl e)
    with Inr assms show ?thesis by (simp add: initMetrics_def)
  next
    case inst: (Inr o2)
    from initMetricsInstruments_Inr[OF inst] inst Inr assms show ?thesis
      by (auto simp: initMetrics_def)
  qed
qed

lemma initLogging_Inr:
  assumes "initLogging k o' = Inr o1"
  shows "\<exists>lp. o1 = o'\<lparr> loggerProvider := Some lp,
                   otelLogger := Some (''otelkit'', ServiceVersion (config o')),
                   logger := Some \<lparr> handler_level = LogLevel (config o'),
                                    handler_file = (if LogFilePath (config o') \<noteq> []
                                                    then Some (LogFilePath (config o'))
                                                    else None) \<rparr> \<rparr>"
  using assms unfolding initLogging_def
  by (cases "createLogsExporter k (config o')") (auto simp: Let_def split: option.splits)

lemma New_Inr:
  assumes "New k c = Inr kit"
  shows "\<exists>o1 o2. initTracing k (OTelKit_of c) = Inr o1
           \<and> (if EnableMetrics c then initMetrics k o1 = Inr o2 else o2 = o1)
           \<and> (if EnableLogs c then initLogging k o2 = Inr kit else kit = o2)"
  using assms unfolding New_def
  by (simp split: sum.splits if_splits)

lemma New_config: "New k c = Inr kit \<Longrightarrow> config kit = c"
  by (auto dest!: New_Inr initTracing_Inr initMetrics_Inr initLogging_Inr
           simp: OTelKit_of_def split: if_splits)

lemma New_tracer: "New k c = Inr kit \<Longrightarrow> tracer kit = Some (ServiceName c, ServiceVersion c)"
  by (auto dest!: New_Inr initTracing_Inr initMetrics_Inr initLogging_Inr
           simp: OTelKit_of_def split: if_splits)

lemma New_no_metrics:
  "New k c = Inr kit \<Longrightarrow> \<not> EnableMetrics c \<Longrightarrow>
     httpRequestDuration kit = None \<and> httpRequestsTotal kit = None
     \<and> activeSpansGauge kit = None \<and> businessOpsCounter kit = None
     \<and> meter kit = None \<and> meterProvider kit = None"
  by (auto dest!: New_Inr initTracing_Inr initMetrics_Inr initLogging_Inr
           simp: OTelKit_of_def split: if_splits)

lemma New_no_logs:
  "New k c = Inr kit \<Longrightarrow> \<not> EnableLogs c \<Longrightarrow>
     logger kit = None \<and> otelLogger kit = None \<and> loggerProvider kit = None"
  by (auto dest!: New_Inr initTracing_Inr initMetrics_Inr initLogging_Inr
           simp: OTelKit_of_def split: if_splits)

lemma New_logger:
  "New k c = Inr kit \<Longrightarrow> EnableLogs c \<Longrightarrow>
     logger kit = Some \<lparr> handler_level = LogLevel c,
                         handler_file = (if LogFilePath c \<noteq> [] then Some (LogFilePath c)
                                         else None) \<rparr>
     \<and> otelLogger kit = Some (''otelkit'', ServiceVersion c)"
  by (auto dest!: New_Inr initTracing_Inr initMetrics_Inr initLogging_Inr
           simp: OTelKit_of_def split: if_splits)

lemma New_metrics:
  "New k c = Inr kit \<Longrightarrow> EnableMetrics c \<Longrightarrow>
     httpRequestDuration kit = Some ''http_request_duration_seconds''
     \<and> httpRequestsTotal kit = Some ''http_requests_total''
     \<and> activeSpansGauge kit = Some ''otelkit_active_spans''
     \<and> businessOpsCounter kit = Some ''otelkit_business_operations_total''"
  by (auto dest!: New_Inr initTracing_Inr initMetrics_Inr initLogging_Inr
           simp: OTelKit_of_def split: if_splits)

lemma createTraceExporter_Inr:
  "createTraceExporter k c = Inr e \<Longrightarrow>
     ExporterType c \<in> {ExporterJaeger, ExporterOTLP, ExporterStdout, ExporterNone}"
  unfolding createTraceExporter_def by (simp split: if_splits)

lemma createMetricsExporter_Inr:
  "createMetricsExporter k c = Inr e \<Longrightarrow>
     MetricsExporterType c \<in> {ExporterOTLP, ExporterPrometheus, ExporterStdout, ExporterNone}"
  unfolding createMetricsExporter_def by (simp split: if_splits)

lemma createLogsExporter_Inr:
  "createLogsExporter k c = Inr e \<Longrightarrow>
     LogsExporterType c \<in> {ExporterOTLP, ExporterStdout, ExporterNone}"
  unfolding createLogsExporter_def by (simp split: if_splits)

lemma initTracing_config: "initTracing k o' = Inr o1 \<Longrightarrow> config o1 = config o'"
  by (auto dest!: initTracing_Inr)

lemma initMetrics_config: "initMetrics k o' = Inr o1 \<Longrightarrow> config o1 = config o'"
  by (auto dest!: initMetrics_Inr)

text \<open>When \<^verbatim>\<open>New\<close> fails: exactly the conditions under which one of its steps does.\<close>

lemma isl_initTracing: "isl (initTracing k o') = isl (createTraceExporter k (config o'))"
  unfolding initTracing_def by (cases "createTraceExporter k (config o')") (simp_all add: Let_def)

lemma isl_initMetricsInstruments:
  "isl (initMetricsInstruments k o') = isl (initMetricsInstruments k o2)"
  unfolding initMetricsInstruments_def by (simp split: option.splits)

lemma isl_initMetrics:
  "isl (initMetrics k o') =
     (isl (createMetricsExporter k (config o')) \<or> isl (initMetricsInstruments k o'))"
  unfolding initMetrics_def
  by (cases "createMetricsExporter k (config o')"; cases "initMetricsInstruments k o'") simp_all

lemma isl_initLogging:
  "isl (initLogging k o') =
     (isl (createLogsExporter k (config o'))
      \<or> (LogFilePath (config o') \<noteq> [] \<and> os_OpenFile k (LogFilePath (config o')) \<noteq> None))"
  unfolding initLogging_def
  by (cases "createLogsExporter k (config o')") (auto simp: Let_def split: option.splits)

lemma isl_New:
  "isl (New k c) =
     (resource_Merge k \<noteq> None
      \<or> isl (createTraceExporter k c)
      \<or> (EnableMetrics c \<and>
           (isl (createMetricsExporter k c) \<or> isl (initMetricsInstruments k (OTelKit_of c))))
      \<or> (EnableLogs c \<and>
           (isl (createLogsExporter k c)
            \<or> (LogFilePath c \<noteq> [] \<and> os_OpenFile k (LogFilePath c) \<noteq> None))))"
proof (cases "resource_Merge k")
  case (Some e)
  then show ?thesis by (simp add: New_def newResource_def made_def)
next
  case None
  show ?thesis
  proof (cases "initTracing k (OTelKit_of c)")
    case (Inl e)
    then have "isl (createTraceExporter k c)"
      using isl_initTracing[of k "OTelKit_of c"] by (simp add: OTelKit_of_def)
    with None Inl show ?thesis by (simp add: New_def newResource_def made_def)
  next
    case t: (Inr o1)
    then have nt: "\<not> isl (createTraceExporter k c)"
      using isl_initTracing[of k "OTelKit_of c"] by (simp add: OTelKit_of_def)
    have c1: "config o1 = c" using initTracing_config[OF t] by (simp add: OTelKit_of_def)
    show ?thesis
    proof (cases "EnableMetrics c")
      case False
      then show ?thesis
        using None t nt c1 isl_initLogging[of k o1]
        by (cases "initLogging k o1") (simp_all add: New_def newResource_def made_def)
    next
      case True
      show ?thesis
      proof (cases "initMetrics k o1")
        case (Inl e)
        then show ?thesis
          using None t nt c1 True isl_initMetrics[of k o1]
                isl_initMetricsInstruments[of k o1 "OTelKit_of c"]
          by (simp add: New_def newResource_def made_def)
      next
        case m: (Inr o2)
        have c2: "config o2 = c" using initMetrics_config[OF m] c1 by simp
        show ?thesis
          using None t nt c1 c2 True m isl_initMetrics[of k o1]
                isl_initMetricsInstruments[of k o1 "OTelKit_of c"] isl_initLogging[of k o2]
          by (cases "initLogging k o2") (simp_all add: New_def newResource_def made_def)
      qed
    qed
  qed
qed

lemma isl_createTraceExporter_unknown:
  "ExporterType c \<notin> {ExporterJaeger, ExporterOTLP, ExporterStdout, ExporterNone}
     \<Longrightarrow> isl (createTraceExporter k c)"
  using createTraceExporter_Inr[of k c] by (cases "createTraceExporter k c") auto

lemma isl_createMetricsExporter_unknown:
  "MetricsExporterType c \<notin> {ExporterOTLP, ExporterPrometheus, ExporterStdout, ExporterNone}
     \<Longrightarrow> isl (createMetricsExporter k c)"
  using createMetricsExporter_Inr[of k c] by (cases "createMetricsExporter k c") auto

lemma isl_createLogsExporter_unknown:
  "LogsExporterType c \<notin> {ExporterOTLP, ExporterStdout, ExporterNone}
     \<Longrightarrow> isl (createLogsExporter k c)"
  using createLogsExporter_Inr[of k c] by (cases "createLogsExporter k c") auto

lemma create_other_names [simp]:
  "createTraceExporter k (c\<lparr> MetricsExporterType := m \<rparr>) = createTraceExporter k c"
  "createTraceExporter k (c\<lparr> LogsExporterType := l \<rparr>) = createTraceExporter k c"
  "createMetricsExporter k (c\<lparr> LogsExporterType := l \<rparr>) = createMetricsExporter k c"
  "createLogsExporter k (c\<lparr> MetricsExporterType := m \<rparr>) = createLogsExporter k c"
  by (simp_all add: createTraceExporter_def createMetricsExporter_def createLogsExporter_def)

lemma instruments_other_config:
  "isl (initMetricsInstruments k (OTelKit_of c')) = isl (initMetricsInstruments k (OTelKit_of c))"
  by (rule isl_initMetricsInstruments)

lemma StartSpan_Some:
  "tracer o' = Some t \<Longrightarrow>
     StartSpan o' ctx n opts w
       = (Return (Some (next_span w), Some (next_span w)), snd (tracer_Start ctx n opts w))"
  by (simp add: StartSpan_def tracer_Start_def Let_def)

lemma shutdown_one_eq:
  "shutdown_one h label (es, w) =
     (es @ failure_of w label h,
      w\<lparr> shutdown_calls := shutdown_calls w @ (case h of None \<Rightarrow> [] | Some p \<Rightarrow> [p]) \<rparr>)"
  by (simp add: shutdown_one_def provider_Shutdown_def failure_of_def split: option.splits)

lemma failure_of_calls [simp]:
  "failure_of (w\<lparr> shutdown_calls := cs \<rparr>) label h = failure_of w label h"
  by (simp add: failure_of_def split: option.splits)

text \<open>
  What each step of the middleware's tail leaves of the spans, the metric points and the
  log records.
\<close>

lemma on_span_proj [simp]:
  "metric_points (on_span s f v) = metric_points v"
  "slog_records (on_span s f v) = slog_records v"
  "otel_records (on_span s f v) = otel_records v"
  "clock (on_span s f v) = clock v"
  by (cases s; simp add: on_span_def)+

lemma spans_on_span [simp]:
  "spans (on_span (Some i) f v) i = f (spans v i)"
  by (simp add: on_span_def)

lemma instrument_record_proj [simp]:
  "spans (instrument_record n x a v) = spans v"
  "slog_records (instrument_record n x a v) = slog_records v"
  "otel_records (instrument_record n x a v) = otel_records v"
  "metric_points (instrument_record n x a v) = metric_points v @ [(n, x, a)]"
  by (simp_all add: instrument_record_def)

lemma slog_LogAttrs_proj [simp]:
  "spans (slog_LogAttrs l cx lv msg as v) = spans v"
  "metric_points (slog_LogAttrs l cx lv msg as v) = metric_points v"
  "otel_records (slog_LogAttrs l cx lv msg as v) = otel_records v"
  "slog_records (slog_LogAttrs l cx lv msg as v) =
     slog_records v @ (if handler_level l \<le> lv then [(handler_file l, lv, msg, as)] else [])"
  by (simp_all add: slog_LogAttrs_def)

lemma emitOTelLog_proj [simp]:
  "spans (emitOTelLog o' cx sev msg as v) = spans v"
  "metric_points (emitOTelLog o' cx sev msg as v) = metric_points v"
  "slog_records (emitOTelLog o' cx sev msg as v) = slog_records v"
  by (simp_all add: emitOTelLog_def split: option.splits)

lemma RecordHTTPMetrics_proj [simp]:
  "spans (RecordHTTPMetrics o' cx mth code d v) = spans v"
  "slog_records (RecordHTTPMetrics o' cx mth code d v) = slog_records v"
  "otel_records (RecordHTTPMetrics o' cx mth code d v) = otel_records v"
  "metric_points (RecordHTTPMetrics o' cx mth code d v) = metric_points v @
     (case httpRequestsTotal o' of None \<Rightarrow> []
      | Some n \<Rightarrow> [(n, IntValue 1, [(''method'', AString mth), (''status_code'', AString code)])]) @
     (case httpRequestDuration o' of None \<Rightarrow> []
      | Some h \<Rightarrow> [(h, FloatValue (real_of_int d / 1000000000),
                     [(''method'', AString mth), (''status_code'', AString code)])])"
  by (simp_all add: RecordHTTPMetrics_def Let_def split: option.splits)

lemma DecrementActiveSpans_proj [simp]:
  "spans (DecrementActiveSpans o' cx v) = spans v"
  "slog_records (DecrementActiveSpans o' cx v) = slog_records v"
  "otel_records (DecrementActiveSpans o' cx v) = otel_records v"
  "metric_points (DecrementActiveSpans o' cx v) = metric_points v @
     (case activeSpansGauge o' of None \<Rightarrow> [] | Some g \<Rightarrow> [(g, IntValue (- 1), [])])"
  by (simp_all add: DecrementActiveSpans_def split: option.splits)

lemma LogError_proj [simp]:
  "spans (LogError o' cx msg err as v) = spans v"
  "metric_points (LogError o' cx msg err as v) = metric_points v"
  "slog_records (LogError o' cx msg err as v) =
     (case logger o' of None \<Rightarrow> slog_records v
      | Some l \<Rightarrow> slog_records (slog_LogAttrs l cx LevelError msg (as @ [slog_Any ''error'' err]) v))"
  by (simp_all add: LogError_def Let_def split: option.splits)

lemma Itoa_200: "Itoa 200 = ''200''"
  by (simp add: Itoa_def digit_char_def)

lemma TimedOperation_without_parent:
  "snd (TimedOperation o' None operationName fn w)
     = snd (TraceFunction o' None operationName fn [] w)"
  by (simp add: TimedOperation_def Let_def span_defs split: prod.splits outcome.splits)

lemma serve_hello:
  "serve_calls [Call_Write ''hello''] \<lparr> ResponseWriter = ResponseWriter0, statusCode = 200 \<rparr>
     = (Return (), \<lparr> ResponseWriter = \<lparr> wroteHeader = True, status = 200, written = ''hello'' \<rparr>,
                     statusCode = 200 \<rparr>)"
  by (simp add: Write_def http_Write_def http_WriteHeader_def ResponseWriter0_def Let_def)

text \<open>
  The two status codes of a response: the wrapper keeps the code of the last
  \<^verbatim>\<open>WriteHeader\<close>, the writer underneath sends the first final code (200 or above), and
  calls of \<^verbatim>\<open>Write\<close> alone leave the wrapper at its initial 200.
\<close>

lemma serve_calls_append:
  "serve_calls (xs @ ys) rw =
     (case serve_calls xs rw of
        (Panic p, rw1) \<Rightarrow> (Panic p, rw1)
      | (Return u, rw1) \<Rightarrow> serve_calls ys rw1)"
  by (induction xs arbitrary: rw) (auto split: prod.splits outcome.splits)

lemma statusCode_WriteHeader: "statusCode (snd (WriteHeader c rw)) = c"
  by (simp add: WriteHeader_def split: prod.splits)

lemma statusCode_last_WriteHeader:
  assumes "fst (serve_calls calls rw) = Return ()"
  shows "statusCode (snd (serve_calls (calls @ [Call_WriteHeader c]) rw)) = c"
proof -
  obtain rw1 where "serve_calls calls rw = (Return (), rw1)"
    using assms by (cases "serve_calls calls rw") auto
  then show ?thesis
    using statusCode_WriteHeader[of c rw1]
    by (auto simp: serve_calls_append split: prod.splits outcome.splits)
qed

lemma apply_call_keeps_status:
  assumes "wroteHeader (ResponseWriter rw)"
  shows "fst (apply_call x rw) = Return ()
     \<and> wroteHeader (ResponseWriter (snd (apply_call x rw)))
     \<and> status (ResponseWriter (snd (apply_call x rw))) = status (ResponseWriter rw)"
  using assms by (cases x) (simp_all add: WriteHeader_def Write_def http_WriteHeader_def
                              http_Write_def Let_def)

lemma serve_calls_keeps_status:
  "wroteHeader (ResponseWriter rw) \<Longrightarrow>
     fst (serve_calls calls rw) = Return ()
     \<and> status (ResponseWriter (snd (serve_calls calls rw))) = status (ResponseWriter rw)"
proof (induction calls arbitrary: rw)
  case Nil
  then show ?case by simp
next
  case (Cons x xs)
  obtain rw1 where a: "apply_call x rw = (Return (), rw1)"
    using apply_call_keeps_status[OF Cons.prems, of x] by (cases "apply_call x rw") auto
  with apply_call_keeps_status[OF Cons.prems, of x]
  have b: "wroteHeader (ResponseWriter rw1)"
    and c: "status (ResponseWriter rw1) = status (ResponseWriter rw)" by simp_all
  from Cons.IH[OF b] a c show ?case by simp
qed

lemma status_first_WriteHeader:
  assumes "\<not> wroteHeader (ResponseWriter rw)" and "200 \<le> c" and "c \<le> 999"
  shows "status (ResponseWriter (snd (serve_calls (Call_WriteHeader c # calls) rw))) = c"
proof -
  have w: "WriteHeader c rw =
      (Return (), rw\<lparr> statusCode := c,
                       ResponseWriter := (ResponseWriter rw)\<lparr> wroteHeader := True, status := c \<rparr> \<rparr>)"
    using assms by (simp add: WriteHeader_def http_WriteHeader_def)
  show ?thesis
    using serve_calls_keeps_status[of "rw\<lparr> statusCode := c,
                       ResponseWriter := (ResponseWriter rw)\<lparr> wroteHeader := True, status := c \<rparr> \<rparr>" calls]
    by (simp add: w)
qed

lemma statusCode_without_WriteHeader:
  "\<forall>x \<in> set calls. \<exists>b. x = Call_Write b \<Longrightarrow>
     fst (serve_calls calls rw) = Return ()
     \<and> statusCode (snd (serve_calls calls rw)) = statusCode rw"
proof (induction calls arbitrary: rw)
  case Nil
  then show ?case by simp
next
  case (Cons x xs)
  then obtain b where "x = Call_Write b" by auto
  with Cons show ?case by (simp add: Write_def http_Write_def Let_def)
qed

subsection \<open>The claims\<close>

text \<open>
  Claim C1. \<^verbatim>\<open>TraceFunction\<close> starts a span named \<open>functionName\<close> (a child of the span
  of the context, with the given attributes, status unset) and calls the body with the
  context that carries it. If the body returns a non-nil error, that same error is
  returned, and the only changes to the world the body left are on that span: the error
  is recorded, the status is set to error with the error's message, and the span is ended.
  If the body returns nil, nil is returned and the only change is that the span is ended:
  no status is set, so a span whose status the body did not touch is still unset.
\<close>

theorem TraceFunction_error_path:
  assumes "tracer o' = Some t"
    and "i = next_span w"
    and "w2 = span_SetAttributes (Some i) attrs (snd (tracer_Start ctx functionName [] w))"
    and "fn (Some i) w2 = (Return r, w3)"
  shows "spans w2 i = new_span functionName ctx attrs
     \<and> fst (TraceFunction o' ctx functionName fn attrs w) = Return r
     \<and> (\<forall>err. r = Some err \<longrightarrow>
          snd (TraceFunction o' ctx functionName fn attrs w) =
            w3\<lparr> spans := (spans w3)(i := (spans w3 i)
                  \<lparr> span_errors := span_errors (spans w3 i) @ [Some err],
                    span_status := (codes_Error, error_Error err),
                    span_ends := Suc (span_ends (spans w3 i)) \<rparr>) \<rparr>)
     \<and> (r = None \<longrightarrow>
          snd (TraceFunction o' ctx functionName fn attrs w) =
            w3\<lparr> spans := (spans w3)(i := (spans w3 i)
                  \<lparr> span_ends := Suc (span_ends (spans w3 i)) \<rparr>) \<rparr>
          \<and> (span_status (spans w3 i) = span_status (spans w2 i) \<longrightarrow>
               span_status (spans (snd (TraceFunction o' ctx functionName fn attrs w)) i)
                 = (codes_Unset, [])))"
proof -
  have s: "StartSpan o' ctx functionName [] w
             = (Return (Some i, Some i), snd (tracer_Start ctx functionName [] w))"
    using assms(1,2) by (simp add: StartSpan_def tracer_Start_def Let_def)
  have n: "spans w2 i = new_span functionName ctx attrs"
    using assms(2,3) by (simp add: tracer_Start_def Let_def span_defs new_span_def)
  have tf: "TraceFunction o' ctx functionName fn attrs w =
      (case r of None \<Rightarrow> (Return None, span_End (Some i) w3)
       | Some err \<Rightarrow> (Return (Some err),
           span_End (Some i) (span_SetStatus (Some i) codes_Error (error_Error err)
              (span_RecordError (Some i) (Some err) w3))))"
    using assms(3,4) by (simp add: TraceFunction_def s split: option.splits)
  show ?thesis
    using n by (cases r) (simp_all add: tf span_defs new_span_def)
qed

text \<open>A body that fails with \<^verbatim>\<open>boom\<close> and a body that succeeds, on the sample kit.\<close>

theorem TraceFunction_error_path_witness:
  "fst (TraceFunction example_kit None ''op'' body_boom [(''k'', ABool True)] world0)
     = Return (Some (Err ''boom''))
   \<and> spans (snd (TraceFunction example_kit None ''op'' body_boom [(''k'', ABool True)] world0)) 0
     = \<lparr> span_name = ''op'', span_parent = None, span_attrs = [(''k'', ABool True)],
         span_events = [], span_errors = [Some (Err ''boom'')],
         span_status = (codes_Error, ''boom''), span_ends = 1 \<rparr>
   \<and> fst (TraceFunction example_kit None ''op'' body_sleep [] world0) = Return None
   \<and> span_status (spans (snd (TraceFunction example_kit None ''op'' body_sleep [] world0)) 0)
     = (codes_Unset, [])"
proof -
  let ?w2 = "span_SetAttributes (Some 0) [(''k'', ABool True)]
               (snd (tracer_Start None ''op'' [] world0))"
  let ?v2 = "span_SetAttributes (Some 0) [] (snd (tracer_Start None ''op'' [] world0))"
  have t: "tracer example_kit = Some (''svc'', ''1.0.0'')" by (simp add: example_kit_def)
  have i: "0 = next_span world0" by (simp add: world0_def)
  have b: "body_boom (Some 0) ?w2 = (Return (Some (Err ''boom'')), ?w2)"
    by (simp add: body_boom_def)
  have c: "body_sleep (Some 0) ?v2 = (Return None, ?v2\<lparr> clock := clock ?v2 + 10000000 \<rparr>)"
    by (simp add: body_sleep_def)
  from TraceFunction_error_path[where w = world0 and ctx = None and functionName = "''op''"
         and attrs = "[(''k'', ABool True)]" and fn = body_boom, OF t i refl b]
       TraceFunction_error_path[where w = world0 and ctx = None and functionName = "''op''"
         and attrs = "[]" and fn = body_sleep, OF t i refl c]
  show ?thesis
    by (simp add: tracer_Start_def Let_def span_defs new_span_def world0_def)
qed

text \<open>
  Claim C2. On a context without a span, \<^verbatim>\<open>AddEvent\<close> and \<^verbatim>\<open>SetAttributes\<close> change
  nothing, and \<^verbatim>\<open>RecordError\<close> with a non-nil error returns and changes nothing. With a
  nil error \<^verbatim>\<open>RecordError\<close> does not return: it panics with a nil dereference, because
  it calls \<^verbatim>\<open>err.Error()\<close> whatever the span is.
\<close>

theorem RecordError_nil_panics:
  "AddEvent o' None name attrs w = w
   \<and> SetAttributes o' None attrs w = w
   \<and> RecordError o' None (Some e) w = (Return (), w)
   \<and> RecordError o' None None w = (Panic nil_deref, w)"
  by (simp add: AddEvent_def SetAttributes_def RecordError_def span_defs Let_def)

text \<open>
  Claim C3. A handler that calls \<^verbatim>\<open>WriteHeader(404)\<close> and then \<^verbatim>\<open>WriteHeader(200)\<close>:
  the response goes out with status 404, the first code written, while the middleware
  records 200, the last one, in the span attributes, the metric points and the completion
  record, leaves the span status unset and logs the completion at level info.
\<close>

theorem HTTPMiddleware_records_last_status:
  "fst run_twice = (Return (), \<lparr> wroteHeader = True, status = 404, written = [] \<rparr>)
   \<and> span_attrs (spans (snd run_twice) 0) =
       [(''http.method'', AString ''GET''), (''http.url'', AString ''/users?id=1''),
        (''http.route'', AString ''/users''), (''http.user_agent'', AString ''curl''),
        (''http.remote_addr'', AString ''10.0.0.1:5000''),
        (''http.status_code'', AInt 200), (''http.status_text'', AString ''OK''),
        (''http.duration_ms'', AFloat64 2)]
   \<and> span_status (spans (snd run_twice) 0) = (codes_Unset, [])
   \<and> metric_points (snd run_twice) =
       [(''otelkit_active_spans'', IntValue 1, []),
        (''http_requests_total'', IntValue 1,
           [(''method'', AString ''GET''), (''status_code'', AString ''200'')]),
        (''http_request_duration_seconds'', FloatValue (2 / 1000),
           [(''method'', AString ''GET''), (''status_code'', AString ''200'')]),
        (''otelkit_active_spans'', IntValue (- 1), [])]
   \<and> slog_records (snd run_twice) =
       [(None, LevelInfo, ''HTTP request started'',
           [slog_String ''method'' ''GET'', slog_String ''path'' ''/users'',
            slog_String ''user_agent'' ''curl'', slog_String ''remote_addr'' ''10.0.0.1:5000'']),
        (None, LevelInfo, ''HTTP request completed'',
           [slog_String ''method'' ''GET'', slog_String ''path'' ''/users'',
            slog_Int ''status_code'' 200, slog_String ''status_text'' ''OK'',
            slog_Float64 ''duration_ms'' 2])]"
  by (simp add: run_twice_def HTTPMiddleware_def StartSpan_def tracer_Start_def
        example_kit_def handler_twice_def request_get_def world0_def Let_def
        span_defs new_span_def WriteHeader_def http_WriteHeader_def
        ResponseWriter0_def Itoa_200 StatusText_sample_def
        IncrementActiveSpans_def DecrementActiveSpans_def instrument_record_def
        RecordHTTPMetrics_def LogInfo_def slog_LogAttrs_def emitOTelLog_def Level_defs
        SeverityInfo_def)

text \<open>
  Claim C4. A body that takes 10 ms under \<^verbatim>\<open>TimedOperation\<close>: the duration returned is
  10 ms and the span created is named as asked, but that span never gets the attribute
  \<^verbatim>\<open>operation.duration_ms\<close>. Without a span in the caller's context the attribute is set
  nowhere; with one, it is set on the caller's span, the parent of the span created.
\<close>

theorem TimedOperation_duration_attribute_misplaced:
  "fst run_timed = Return (10000000, None)
   \<and> next_span (snd run_timed) = 1
   \<and> spans (snd run_timed) 0 =
       \<lparr> span_name = ''timed_test'', span_parent = None, span_attrs = [], span_events = [],
         span_errors = [], span_status = (codes_Unset, []), span_ends = 1 \<rparr>
   \<and> spans (snd run_timed_child) 1 =
       \<lparr> span_name = ''timed_test'', span_parent = Some 0, span_attrs = [], span_events = [],
         span_errors = [], span_status = (codes_Unset, []), span_ends = 1 \<rparr>
   \<and> spans (snd run_timed_child) 0 =
       \<lparr> span_name = ''parent'', span_parent = None,
         span_attrs = [(''operation.duration_ms'', AInt 10)], span_events = [],
         span_errors = [], span_status = (codes_Unset, []), span_ends = 0 \<rparr>"
  by (simp add: run_timed_def run_timed_child_def TimedOperation_def TraceFunction_def
        StartSpan_def tracer_Start_def example_kit_def body_sleep_def world0_def Let_def
        span_defs new_span_def)

text \<open>
  Claim C5. With the condition false, \<^verbatim>\<open>ConditionalTrace\<close> is the call of the body on
  the context it was given: same result, same world, hence no span created beyond what
  the body itself creates. With the condition true it is \<^verbatim>\<open>TraceFunction\<close> on the same
  arguments, without attributes.
\<close>

theorem ConditionalTrace_refines:
  "ConditionalTrace o' ctx False spanName fn w = fn ctx w
   \<and> next_span (snd (ConditionalTrace o' ctx False spanName fn w)) = next_span (snd (fn ctx w))
   \<and> spans (snd (ConditionalTrace o' ctx False spanName fn w)) = spans (snd (fn ctx w))
   \<and> ConditionalTrace o' ctx True spanName fn w = TraceFunction o' ctx spanName fn [] w"
  by (simp add: ConditionalTrace_def)

text \<open>
  Claim C6. An explicit configuration whose trace exporter is left unset is not resolved
  to the default exporter: \<^verbatim>\<open>New\<close> rejects the zero-valued configuration, and the
  configuration of the repository's own logs test program, with the error
  \<^verbatim>\<open>unsupported trace exporter type\<close> and an empty name.
\<close>

theorem New_unset_exporter_not_defaulted:
  "New sdk_ok Config_zero =
     Inl (Wrapf ''failed to initialize tracing''
           (Wrapf ''failed to create trace exporter''
             (Err ''unsupported trace exporter type: '')))
   \<and> New sdk_ok logs_test_config =
     Inl (Wrapf ''failed to initialize tracing''
           (Wrapf ''failed to create trace exporter''
             (Err ''unsupported trace exporter type: '')))
   \<and> error_Error (Wrapf ''failed to initialize tracing''
           (Wrapf ''failed to create trace exporter''
             (Err ''unsupported trace exporter type: '')))
       = ''failed to initialize tracing: failed to create trace exporter: unsupported trace exporter type: ''"
  by (simp add: New_defs sdk_ok_def Config_zero_def logs_test_config_def Exporter_defs)

text \<open>
  Claim C7, as the code has it. \<^verbatim>\<open>New\<close> returns an error, and no kit, when the trace
  exporter name is not one of jaeger, otlp, stdout, none; when metrics are enabled and the
  metrics exporter name is not one of otlp, prometheus, stdout, none; or when logs are
  enabled and the logs exporter name is not one of otlp, stdout, none. The exporter name
  of a disabled signal is not examined: with metrics disabled, whether \<^verbatim>\<open>New\<close> fails
  is the same for every metrics exporter name, and with logs disabled it is the same for
  every logs exporter name.
\<close>

theorem New_rejects_unknown_exporter:
  "(ExporterType c \<notin> {ExporterJaeger, ExporterOTLP, ExporterStdout, ExporterNone}
     \<or> (EnableMetrics c \<and>
          MetricsExporterType c \<notin> {ExporterOTLP, ExporterPrometheus, ExporterStdout, ExporterNone})
     \<or> (EnableLogs c \<and> LogsExporterType c \<notin> {ExporterOTLP, ExporterStdout, ExporterNone})
     \<longrightarrow> isl (New k c))
   \<and> (\<not> EnableMetrics c \<longrightarrow>
         isl (New k (c\<lparr> MetricsExporterType := m \<rparr>)) = isl (New k c))
   \<and> (\<not> EnableLogs c \<longrightarrow>
         isl (New k (c\<lparr> LogsExporterType := l \<rparr>)) = isl (New k c))"
proof (intro conjI impI)
  assume "ExporterType c \<notin> {ExporterJaeger, ExporterOTLP, ExporterStdout, ExporterNone}
     \<or> (EnableMetrics c \<and>
          MetricsExporterType c \<notin> {ExporterOTLP, ExporterPrometheus, ExporterStdout, ExporterNone})
     \<or> (EnableLogs c \<and> LogsExporterType c \<notin> {ExporterOTLP, ExporterStdout, ExporterNone})"
  then show "isl (New k c)"
    using isl_createTraceExporter_unknown[of c k] isl_createMetricsExporter_unknown[of c k]
          isl_createLogsExporter_unknown[of c k]
    unfolding isl_New by blast
next
  assume "\<not> EnableMetrics c"
  then show "isl (New k (c\<lparr> MetricsExporterType := m \<rparr>)) = isl (New k c)"
    unfolding isl_New by simp
next
  assume "\<not> EnableLogs c"
  then show "isl (New k (c\<lparr> LogsExporterType := l \<rparr>)) = isl (New k c)"
    unfolding isl_New
    using instruments_other_config[of k "c\<lparr> LogsExporterType := l \<rparr>" c] by simp
qed

text \<open>
  The default configuration with the metrics exporter set to jaeger is rejected; the
  configuration with both signals disabled is accepted with and without unknown names.
\<close>

theorem New_rejects_unknown_exporter_witness:
  "isl (New sdk_ok ((DefaultConfig (\<lambda>_. []))\<lparr> MetricsExporterType := ExporterJaeger \<rparr>))
   \<and> isl (New sdk_ok (bare_config\<lparr> MetricsExporterType := ''bogus'' \<rparr>))
        = isl (New sdk_ok bare_config)
   \<and> isl (New sdk_ok (bare_config\<lparr> LogsExporterType := ''bogus'' \<rparr>))
        = isl (New sdk_ok bare_config)
   \<and> \<not> isl (New sdk_ok bare_config)"
  using New_rejects_unknown_exporter[of "(DefaultConfig (\<lambda>_. []))\<lparr> MetricsExporterType := ExporterJaeger \<rparr>" sdk_ok]
        New_rejects_unknown_exporter[of bare_config sdk_ok "''bogus''" "''bogus''"]
        bare_kit_New
  by (simp add: DefaultConfig_def getEnvOrDefault_def Exporter_defs bare_config_def
        Config_zero_def)

text \<open>
  With metrics and logs disabled, unknown metrics and logs exporter names are never
  looked at: \<^verbatim>\<open>New\<close> returns a kit.
\<close>

theorem New_ignores_disabled_exporter_names:
  "New sdk_ok (Config_zero\<lparr> ExporterType := ExporterNone, MetricsExporterType := ''bogus'',
                             LogsExporterType := ''bogus'' \<rparr>)
     = Inr ((OTelKit_of (Config_zero\<lparr> ExporterType := ExporterNone,
                MetricsExporterType := ''bogus'', LogsExporterType := ''bogus'' \<rparr>))
              \<lparr> tracer := Some ([], []), tracerProvider := Some (TracerProvider None NeverSample) \<rparr>)"
  by (simp add: New_defs sdk_ok_def Config_zero_def Exporter_defs)

text \<open>
  Claim C8. \<^verbatim>\<open>Shutdown\<close> calls the shutdown of every provider whose handle is not nil,
  each exactly once and in the order trace, metric, log, whatever the earlier ones
  returned; a nil handle is skipped. It returns nil exactly when none of those shutdowns
  fails, and otherwise one error that holds all the failures, each wrapped with the name
  of its provider.
\<close>

theorem Shutdown_collects_failures:
  "shutdown_calls (snd (Shutdown o' ctx w)) = shutdown_calls w @ present_providers o'
   \<and> fst (Shutdown o' ctx w) =
       (if shutdown_failures o' w = [] then None
        else Some (Errorfv ''shutdown errors'' (shutdown_failures o' w)))
   \<and> (fst (Shutdown o' ctx w) = None
        \<longleftrightarrow> (\<forall>p \<in> set (present_providers o'). shutdown_result w p = None))"
proof -
  have sd: "Shutdown o' ctx w =
      (if shutdown_failures o' w = [] then None
       else Some (Errorfv ''shutdown errors'' (shutdown_failures o' w)),
       w\<lparr> shutdown_calls := shutdown_calls w @ present_providers o' \<rparr>)"
    by (simp add: Shutdown_def Let_def shutdown_one_eq shutdown_failures_def
          present_providers_def)
  have nf: "shutdown_failures o' w = []
      \<longleftrightarrow> (\<forall>p \<in> set (present_providers o'). shutdown_result w p = None)"
    by (auto simp: shutdown_failures_def failure_of_def present_providers_def
          split: option.splits)
  show ?thesis using nf by (simp add: sd)
qed

text \<open>
  A tracer provider whose shutdown fails does not keep the other two from being shut
  down; a kit with the tracer provider alone shuts down cleanly.
\<close>

theorem Shutdown_collects_failures_witness:
  "fst (Shutdown example_kit None world_trace_fails) =
     Some (Errorfv ''shutdown errors''
            [Wrapf ''tracer provider shutdown'' (Err ''context deadline exceeded'')])
   \<and> shutdown_calls (snd (Shutdown example_kit None world_trace_fails)) =
       [TracerProvider (Some StdoutTraceExporter) (TraceIDRatioBased 1),
        MeterProvider (Some (ExporterReader PrometheusExporter)),
        LoggerProvider (Some StdoutLogExporter)]
   \<and> fst (Shutdown bare_kit None world0) = None
   \<and> shutdown_calls (snd (Shutdown bare_kit None world0)) = [TracerProvider None NeverSample]"
  using Shutdown_collects_failures[of example_kit None world_trace_fails]
        Shutdown_collects_failures[of bare_kit None world0]
  by (simp add: shutdown_failures_def failure_of_def present_providers_def example_kit_def
        bare_kit_def OTelKit_of_def world_trace_fails_def world0_def)

text \<open>
  Claim C9. In a kit built by \<^verbatim>\<open>New\<close> with metrics disabled the four instruments are
  nil, and \<^verbatim>\<open>RecordMetric\<close>, \<^verbatim>\<open>RecordHTTPMetrics\<close>, \<^verbatim>\<open>IncrementActiveSpans\<close> and
  \<^verbatim>\<open>DecrementActiveSpans\<close> change nothing; with logs disabled both loggers are nil, and
  \<^verbatim>\<open>LogInfo\<close>, \<^verbatim>\<open>LogWarn\<close>, \<^verbatim>\<open>LogError\<close> and \<^verbatim>\<open>LogDebug\<close> change nothing. None of
  them can panic: every use of a handle is behind its nil check.
\<close>

theorem disabled_signals_are_noops:
  assumes "New k c = Inr o'"
  shows "(\<not> EnableMetrics c \<longrightarrow>
            httpRequestDuration o' = None \<and> httpRequestsTotal o' = None
          \<and> activeSpansGauge o' = None \<and> businessOpsCounter o' = None
          \<and> RecordMetric o' ctx operation v attrs w = w
          \<and> RecordHTTPMetrics o' ctx method code duration w = w
          \<and> IncrementActiveSpans o' ctx w = w
          \<and> DecrementActiveSpans o' ctx w = w)
       \<and> (\<not> EnableLogs c \<longrightarrow>
            logger o' = None \<and> otelLogger o' = None
          \<and> LogInfo o' ctx msg lattrs w = w
          \<and> LogWarn o' ctx msg lattrs w = w
          \<and> LogError o' ctx msg err lattrs w = w
          \<and> LogDebug o' ctx msg lattrs w = w)"
  using New_no_metrics[OF assms] New_no_logs[OF assms]
  by (simp add: RecordMetric_def RecordHTTPMetrics_def IncrementActiveSpans_def
        DecrementActiveSpans_def LogInfo_def LogWarn_def LogError_def LogDebug_def
        emitOTelLog_def)

text \<open>The kit with both signals disabled, on the initial world.\<close>

theorem disabled_signals_are_noops_witness:
  "RecordMetric bare_kit None ''order_processed'' 1 [] world0 = world0
   \<and> RecordHTTPMetrics bare_kit None ''GET'' ''200'' 5 world0 = world0
   \<and> IncrementActiveSpans bare_kit None world0 = world0
   \<and> DecrementActiveSpans bare_kit None world0 = world0
   \<and> LogInfo bare_kit None ''hello'' [] world0 = world0
   \<and> LogWarn bare_kit None ''hello'' [] world0 = world0
   \<and> LogError bare_kit None ''hello'' None [] world0 = world0
   \<and> LogDebug bare_kit None ''hello'' [] world0 = world0"
  using disabled_signals_are_noops[OF bare_kit_New]
  by (simp add: bare_config_def Config_zero_def)

text \<open>
  Claim C10. A kit built by \<^verbatim>\<open>New\<close>, and a handler that, run on the request with the
  new span's context, makes its writer calls without a panic and returns. In every case
  the writer holds what the handler wrote, the status attributes are set on the span, the
  span is marked as error from status 400 on and is ended, and the request metrics are
  recorded (when metrics are enabled). With logs enabled the middleware returns, having
  appended through the kit's logger the completion record, at level info, warn or error
  by status, and from status 400 on the failure record, each if the logger's level lets
  it through. With logs disabled the logger is nil and the middleware panics with a nil
  dereference at the completion record: no record is written, although \<^verbatim>\<open>LogInfo\<close> on
  the same kit is a guarded no-op.
\<close>

theorem HTTPMiddleware_needs_logger:
  assumes "New k c = Inr o'"
    and "i = next_span w"
    and "w3 = LogInfo o' (Some i) ''HTTP request started''
                [slog_String ''method'' (Method r), slog_String ''path'' (URL_Path r),
                 slog_String ''user_agent'' (UserAgent r),
                 slog_String ''remote_addr'' (RemoteAddr r)]
                (IncrementActiveSpans o' (Some i)
                  (snd (tracer_Start (req_Context r) (Method r @ '' '' @ URL_Path r)
                    [(''http.method'', AString (Method r)),
                     (''http.url'', AString (URL_String r)),
                     (''http.route'', AString (URL_Path r)),
                     (''http.user_agent'', AString (UserAgent r)),
                     (''http.remote_addr'', AString (RemoteAddr r))] w)))"
    and "hnd (r\<lparr> req_Context := Some i \<rparr>) w3 = ((calls, Return ()), w4)"
    and "serve_calls calls \<lparr> ResponseWriter = rw, statusCode = 200 \<rparr> = (Return (), wrapped)"
    and "sc = statusCode wrapped"
    and "d = int (clock w4) - int (clock w)"
    and "R = HTTPMiddleware st o' hnd rw r w"
  shows "snd (fst R) = ResponseWriter wrapped
     \<and> spans (snd R) i = (spans w4 i)
          \<lparr> span_attrs := span_attrs (spans w4 i) @
               [(''http.status_code'', AInt sc), (''http.status_text'', AString (st sc)),
                (''http.duration_ms'', AFloat64 (real_of_int d / 1000000))],
            span_status := (if 400 \<le> sc then (codes_Error, st sc)
                            else span_status (spans w4 i)),
            span_ends := Suc (span_ends (spans w4 i)) \<rparr>
     \<and> metric_points (snd R) = metric_points w4 @
          (if EnableMetrics c
           then [(''http_requests_total'', IntValue 1,
                    [(''method'', AString (Method r)), (''status_code'', AString (Itoa sc))]),
                 (''http_request_duration_seconds'', FloatValue (real_of_int d / 1000000000),
                    [(''method'', AString (Method r)), (''status_code'', AString (Itoa sc))]),
                 (''otelkit_active_spans'', IntValue (- 1), [])]
           else [])
     \<and> (EnableLogs c \<longrightarrow>
           fst (fst R) = Return ()
         \<and> slog_records (snd R) = slog_records w4 @
              (if LogLevel c \<le> (if 500 \<le> sc then LevelError
                                  else if 400 \<le> sc then LevelWarn else LevelInfo)
               then [(if LogFilePath c \<noteq> [] then Some (LogFilePath c) else None,
                      if 500 \<le> sc then LevelError
                      else if 400 \<le> sc then LevelWarn else LevelInfo,
                      ''HTTP request completed'',
                      [slog_String ''method'' (Method r), slog_String ''path'' (URL_Path r),
                       slog_Int ''status_code'' sc, slog_String ''status_text'' (st sc),
                       slog_Float64 ''duration_ms'' (real_of_int d / 1000000)])]
               else []) @
              (if 400 \<le> sc \<and> LogLevel c \<le> LevelError
               then [(if LogFilePath c \<noteq> [] then Some (LogFilePath c) else None,
                      LevelError, ''HTTP request failed'',
                      [slog_Int ''status_code'' sc, slog_String ''path'' (URL_Path r),
                       slog_Any ''error'' None])]
               else []))
     \<and> (\<not> EnableLogs c \<longrightarrow>
           logger o' = None
         \<and> fst (fst R) = Panic nil_deref
         \<and> slog_records (snd R) = slog_records w4
         \<and> otel_records (snd R) = otel_records w4
         \<and> LogInfo o' ctx msg attrs w = w)"
proof -
  have t: "tracer o' = Some (ServiceName c, ServiceVersion c)"
    by (rule New_tracer[OF assms(1)])
  have m: "httpRequestDuration o' = (if EnableMetrics c then Some ''http_request_duration_seconds'' else None)
         \<and> httpRequestsTotal o' = (if EnableMetrics c then Some ''http_requests_total'' else None)
         \<and> activeSpansGauge o' = (if EnableMetrics c then Some ''otelkit_active_spans'' else None)"
    using New_metrics[OF assms(1)] New_no_metrics[OF assms(1)] by simp
  have run: "hnd (r\<lparr> req_Context := Some (next_span w) \<rparr>)
               (LogInfo o' (Some (next_span w)) ''HTTP request started''
                [slog_String ''method'' (Method r), slog_String ''path'' (URL_Path r),
                 slog_String ''user_agent'' (UserAgent r),
                 slog_String ''remote_addr'' (RemoteAddr r)]
                (IncrementActiveSpans o' (Some (next_span w))
                  (snd (tracer_Start (req_Context r) (Method r @ '' '' @ URL_Path r)
                    [(''http.method'', AString (Method r)),
                     (''http.url'', AString (URL_String r)),
                     (''http.route'', AString (URL_Path r)),
                     (''http.user_agent'', AString (UserAgent r)),
                     (''http.remote_addr'', AString (RemoteAddr r))] w))))
             = ((calls, Return ()), w4)"
    using assms(2,3,4) by simp
  show ?thesis
  proof (cases "EnableLogs c")
    case True
    from New_logger[OF assms(1) True]
    have l: "logger o' = Some \<lparr> handler_level = LogLevel c,
                         handler_file = (if LogFilePath c \<noteq> [] then Some (LogFilePath c)
                                         else None) \<rparr>" by simp
    have R: "R = ((Return (), ResponseWriter wrapped),
                  span_End (Some i) (DecrementActiveSpans o' (Some i)
                   ((if 400 \<le> sc
                     then LogError o' (Some i) ''HTTP request failed'' None
                            [slog_Int ''status_code'' sc, slog_String ''path'' (URL_Path r)]
                     else (\<lambda>v. v))
                    (slog_LogAttrs \<lparr> handler_level = LogLevel c,
                         handler_file = (if LogFilePath c \<noteq> [] then Some (LogFilePath c)
                                         else None) \<rparr> (Some i)
                       (if 500 \<le> sc then LevelError
                        else if 400 \<le> sc then LevelWarn else LevelInfo)
                       ''HTTP request completed''
                       [slog_String ''method'' (Method r), slog_String ''path'' (URL_Path r),
                        slog_Int ''status_code'' sc, slog_String ''status_text'' (st sc),
                        slog_Float64 ''duration_ms'' (real_of_int d / 1000000)]
                      (RecordHTTPMetrics o' (Some i) (Method r) (Itoa sc) d
                        ((if 400 \<le> sc then span_SetStatus (Some i) codes_Error (st sc)
                          else (\<lambda>v. v))
                         (span_SetAttributes (Some i)
                           [(''http.status_code'', AInt sc),
                            (''http.status_text'', AString (st sc)),
                            (''http.duration_ms'', AFloat64 (real_of_int d / 1000000))]
                           w4)))))))"
      using run assms(2,5,6,7,8) l unfolding HTTPMiddleware_def
      by (simp add: StartSpan_Some[OF t] Let_def)
    have sp: "spans (snd R) i = (spans w4 i)
          \<lparr> span_attrs := span_attrs (spans w4 i) @
               [(''http.status_code'', AInt sc), (''http.status_text'', AString (st sc)),
                (''http.duration_ms'', AFloat64 (real_of_int d / 1000000))],
            span_status := (if 400 \<le> sc then (codes_Error, st sc)
                            else span_status (spans w4 i)),
            span_ends := Suc (span_ends (spans w4 i)) \<rparr>"
      by (cases "400 \<le> sc") (simp_all add: R span_ops)
    have mp: "metric_points (snd R) = metric_points w4 @
          (if EnableMetrics c
           then [(''http_requests_total'', IntValue 1,
                    [(''method'', AString (Method r)), (''status_code'', AString (Itoa sc))]),
                 (''http_request_duration_seconds'', FloatValue (real_of_int d / 1000000000),
                    [(''method'', AString (Method r)), (''status_code'', AString (Itoa sc))]),
                 (''otelkit_active_spans'', IntValue (- 1), [])]
           else [])"
      using m by (cases "400 \<le> sc"; cases "EnableMetrics c") (simp_all add: R span_ops)
    have sl: "slog_records (snd R) = slog_records w4 @
              (if LogLevel c \<le> (if 500 \<le> sc then LevelError
                                  else if 400 \<le> sc then LevelWarn else LevelInfo)
               then [(if LogFilePath c \<noteq> [] then Some (LogFilePath c) else None,
                      if 500 \<le> sc then LevelError
                      else if 400 \<le> sc then LevelWarn else LevelInfo,
                      ''HTTP request completed'',
                      [slog_String ''method'' (Method r), slog_String ''path'' (URL_Path r),
                       slog_Int ''status_code'' sc, slog_String ''status_text'' (st sc),
                       slog_Float64 ''duration_ms'' (real_of_int d / 1000000)])]
               else []) @
              (if 400 \<le> sc \<and> LogLevel c \<le> LevelError
               then [(if LogFilePath c \<noteq> [] then Some (LogFilePath c) else None,
                      LevelError, ''HTTP request failed'',
                      [slog_Int ''status_code'' sc, slog_String ''path'' (URL_Path r),
                       slog_Any ''error'' None])]
               else [])"
      using l by (cases "400 \<le> sc") (simp_all add: R span_ops)
    show ?thesis using True sp mp sl by (simp add: R)
  next
    case False
    from New_no_logs[OF assms(1) False]
    have l: "logger o' = None" and ol: "otelLogger o' = None" by simp_all
    have R: "R = ((Panic nil_deref, ResponseWriter wrapped),
                  span_End (Some i) (DecrementActiveSpans o' (Some i)
                      (RecordHTTPMetrics o' (Some i) (Method r) (Itoa sc) d
                        ((if 400 \<le> sc then span_SetStatus (Some i) codes_Error (st sc)
                          else (\<lambda>v. v))
                         (span_SetAttributes (Some i)
                           [(''http.status_code'', AInt sc),
                            (''http.status_text'', AString (st sc)),
                            (''http.duration_ms'', AFloat64 (real_of_int d / 1000000))]
                           w4)))))"
      using run assms(2,5,6,7,8) l unfolding HTTPMiddleware_def
      by (simp add: StartSpan_Some[OF t] Let_def)
    have sp: "spans (snd R) i = (spans w4 i)
          \<lparr> span_attrs := span_attrs (spans w4 i) @
               [(''http.status_code'', AInt sc), (''http.status_text'', AString (st sc)),
                (''http.duration_ms'', AFloat64 (real_of_int d / 1000000))],
            span_status := (if 400 \<le> sc then (codes_Error, st sc)
                            else span_status (spans w4 i)),
            span_ends := Suc (span_ends (spans w4 i)) \<rparr>"
      by (cases "400 \<le> sc") (simp_all add: R span_ops)
    have mp: "metric_points (snd R) = metric_points w4 @
          (if EnableMetrics c
           then [(''http_requests_total'', IntValue 1,
                    [(''method'', AString (Method r)), (''status_code'', AString (Itoa sc))]),
                 (''http_request_duration_seconds'', FloatValue (real_of_int d / 1000000000),
                    [(''method'', AString (Method r)), (''status_code'', AString (Itoa sc))]),
                 (''otelkit_active_spans'', IntValue (- 1), [])]
           else [])"
      using m by (cases "400 \<le> sc"; cases "EnableMetrics c") (simp_all add: R span_ops)
    have sl: "slog_records (snd R) = slog_records w4 \<and> otel_records (snd R) = otel_records w4"
      by (cases "400 \<le> sc") (simp_all add: R span_ops)
    have li: "LogInfo o' ctx msg attrs w = w"
      using l ol by (simp add: LogInfo_def emitOTelLog_def)
    show ?thesis using False sp mp sl l li by (simp add: R)
  qed
qed

text \<open>
  The same request and handler on the sample kit, which logs the start and the
  completion, and on the kit without logs, which panics after it has set the span
  attributes and ended the span.
\<close>

theorem HTTPMiddleware_needs_logger_witness:
  "fst (HTTPMiddleware StatusText_sample example_kit handler_ok ResponseWriter0
          request_get world0)
     = (Return (), \<lparr> wroteHeader = True, status = 200, written = ''hello'' \<rparr>)
   \<and> slog_records (snd (HTTPMiddleware StatusText_sample example_kit handler_ok
          ResponseWriter0 request_get world0)) =
       [(None, LevelInfo, ''HTTP request started'',
           [slog_String ''method'' ''GET'', slog_String ''path'' ''/users'',
            slog_String ''user_agent'' ''curl'', slog_String ''remote_addr'' ''10.0.0.1:5000'']),
        (None, LevelInfo, ''HTTP request completed'',
           [slog_String ''method'' ''GET'', slog_String ''path'' ''/users'',
            slog_Int ''status_code'' 200, slog_String ''status_text'' ''OK'',
            slog_Float64 ''duration_ms'' 2])]
   \<and> fst (HTTPMiddleware StatusText_sample bare_kit handler_ok ResponseWriter0
          request_get world0)
     = (Panic nil_deref, \<lparr> wroteHeader = True, status = 200, written = ''hello'' \<rparr>)
   \<and> slog_records (snd (HTTPMiddleware StatusText_sample bare_kit handler_ok
          ResponseWriter0 request_get world0)) = []
   \<and> spans (snd (HTTPMiddleware StatusText_sample bare_kit handler_ok
          ResponseWriter0 request_get world0)) 0 =
       \<lparr> span_name = ''GET /users'', span_parent = None,
         span_attrs = [(''http.method'', AString ''GET''), (''http.url'', AString ''/users?id=1''),
            (''http.route'', AString ''/users''), (''http.user_agent'', AString ''curl''),
            (''http.remote_addr'', AString ''10.0.0.1:5000''),
            (''http.status_code'', AInt 200), (''http.status_text'', AString ''OK''),
            (''http.duration_ms'', AFloat64 2)],
         span_events = [], span_errors = [], span_status = (codes_Unset, []),
         span_ends = 1 \<rparr>"
proof -
  let ?W = "\<lambda>kit. LogInfo kit (Some (next_span world0)) ''HTTP request started''
                [slog_String ''method'' (Method request_get),
                 slog_String ''path'' (URL_Path request_get),
                 slog_String ''user_agent'' (UserAgent request_get),
                 slog_String ''remote_addr'' (RemoteAddr request_get)]
                (IncrementActiveSpans kit (Some (next_span world0))
                  (snd (tracer_Start (req_Context request_get)
                    (Method request_get @ '' '' @ URL_Path request_get)
                    [(''http.method'', AString (Method request_get)),
                     (''http.url'', AString (URL_String request_get)),
                     (''http.route'', AString (URL_Path request_get)),
                     (''http.user_agent'', AString (UserAgent request_get)),
                     (''http.remote_addr'', AString (RemoteAddr request_get))] world0)))"
  have h: "\<And>kit. handler_ok (request_get\<lparr> req_Context := Some (next_span world0) \<rparr>) (?W kit)
             = (([Call_Write ''hello''], Return ()), (?W kit)\<lparr> clock := clock (?W kit) + 2000000 \<rparr>)"
    by (simp add: handler_ok_def)
  note a = HTTPMiddleware_needs_logger[where st = StatusText_sample and w = world0
             and r = request_get and rw = ResponseWriter0 and hnd = handler_ok,
             OF example_kit_New refl refl h serve_hello refl refl refl]
  note b = HTTPMiddleware_needs_logger[where st = StatusText_sample and w = world0
             and r = request_get and rw = ResponseWriter0 and hnd = handler_ok,
             OF bare_kit_New refl refl h serve_hello refl refl refl]
  have e: "fst (HTTPMiddleware StatusText_sample example_kit handler_ok ResponseWriter0
            request_get world0)
       = (Return (), \<lparr> wroteHeader = True, status = 200, written = ''hello'' \<rparr>)
     \<and> slog_records (snd (HTTPMiddleware StatusText_sample example_kit handler_ok
            ResponseWriter0 request_get world0)) =
         [(None, LevelInfo, ''HTTP request started'',
             [slog_String ''method'' ''GET'', slog_String ''path'' ''/users'',
              slog_String ''user_agent'' ''curl'', slog_String ''remote_addr'' ''10.0.0.1:5000'']),
          (None, LevelInfo, ''HTTP request completed'',
             [slog_String ''method'' ''GET'', slog_String ''path'' ''/users'',
              slog_Int ''status_code'' 200, slog_String ''status_text'' ''OK'',
              slog_Float64 ''duration_ms'' 2])]
     \<and> fst (HTTPMiddleware StatusText_sample bare_kit handler_ok ResponseWriter0
            request_get world0)
       = (Panic nil_deref, \<lparr> wroteHeader = True, status = 200, written = ''hello'' \<rparr>)
     \<and> slog_records (snd (HTTPMiddleware StatusText_sample bare_kit handler_ok
            ResponseWriter0 request_get world0)) = []
     \<and> spans (snd (HTTPMiddleware StatusText_sample bare_kit handler_ok
            ResponseWriter0 request_get world0)) 0 =
         \<lparr> span_name = ''GET /users'', span_parent = None,
           span_attrs = [(''http.method'', AString ''GET''), (''http.url'', AString ''/users?id=1''),
              (''http.route'', AString ''/users''), (''http.user_agent'', AString ''curl''),
              (''http.remote_addr'', AString ''10.0.0.1:5000''),
              (''http.status_code'', AInt 200), (''http.status_text'', AString ''OK''),
              (''http.duration_ms'', AFloat64 2)],
           span_events = [], span_errors = [], span_status = (codes_Unset, []),
           span_ends = 1 \<rparr>"
    by (simp add: HTTPMiddleware_def StartSpan_def tracer_Start_def
        example_kit_def bare_kit_def OTelKit_of_def bare_config_def Config_zero_def
        handler_ok_def request_get_def world0_def Let_def
        span_defs new_span_def Write_def http_Write_def http_WriteHeader_def
        ResponseWriter0_def Itoa_def digit_char_def StatusText_sample_def
        IncrementActiveSpans_def DecrementActiveSpans_def instrument_record_def
        RecordHTTPMetrics_def LogInfo_def slog_LogAttrs_def emitOTelLog_def Level_defs
        SeverityInfo_def)
  from a b show ?thesis by - (rule e)
qed

end
